theory Spec2Isabelle
  imports Main "HOL-Library.Word"
begin

section \<open>Data model (shared/schema.ts)\<close>

text \<open>
  The four tables of the schema, one record per row type (\<open>$inferSelect\<close>). Column
  names are prefixed with the table's initial because several tables share \<open>id\<close>,
  \<open>createdBy\<close>, \<open>createdAt\<close>. A \<open>uuid\<close> is the canonical text of the identifier as
  PostgreSQL returns it; enum columns are strings, checked against the enum's values by
  the table constraints below. A nullable column is an \<open>option\<close>. Identifiers that
  come with a request (route parameters, token payload) are taken to be well-formed:
  PostgreSQL raises on text that is not a uuid, which every handler answers with 500.
\<close>

type_synonym uuid = string
type_synonym timestamp = nat

definition taskStatusEnum :: "string list" where
  "taskStatusEnum = [''todo'', ''in_progress'', ''done'']"

definition taskPriorityEnum :: "string list" where
  "taskPriorityEnum = [''low'', ''medium'', ''high'']"

definition projectStatusEnum :: "string list" where
  "projectStatusEnum = [''active'', ''completed'', ''on_hold'']"

definition memberRoleEnum :: "string list" where
  "memberRoleEnum = [''owner'', ''member'']"

record User =
  u_id :: uuid
  u_firstName :: string
  u_lastName :: string
  u_email :: string
  u_password :: string
  u_profileImageUrl :: "string option"
  u_createdAt :: timestamp
  u_updatedAt :: timestamp

record Project =
  p_id :: uuid
  p_name :: string
  p_description :: "string option"
  p_inviteCode :: string
  p_status :: string
  p_deadline :: "timestamp option"
  p_createdBy :: uuid
  p_createdAt :: timestamp
  p_updatedAt :: timestamp

record ProjectMember =
  m_id :: uuid
  m_projectId :: uuid
  m_userId :: uuid
  m_role :: string
  m_joinedAt :: timestamp

record Task =
  t_id :: uuid
  t_title :: string
  t_description :: "string option"
  t_status :: string
  t_priority :: string
  t_projectId :: uuid
  t_assigneeId :: "uuid option"
  t_createdBy :: uuid
  t_createdAt :: timestamp
  t_updatedAt :: timestamp

text \<open>Insert types: the insert schemas omit the generated columns.\<close>

record InsertUser =
  iu_firstName :: string
  iu_lastName :: string
  iu_email :: string
  iu_password :: string
  iu_profileImageUrl :: "string option"

record InsertProject =
  ip_name :: string
  ip_description :: "string option"
  ip_status :: "string option"
  ip_deadline :: "timestamp option"

record InsertProjectMember =
  im_projectId :: uuid
  im_userId :: uuid
  im_role :: "string option"

record InsertTask =
  it_title :: string
  it_description :: "string option"
  it_status :: "string option"
  it_priority :: "string option"
  it_projectId :: uuid
  it_assigneeId :: "uuid option"

text \<open>
  \<open>Partial<Project>\<close> and \<open>Partial<Task>\<close>, the payload of an update: a key that is
  absent is \<open>None\<close>; for a nullable column \<open>Some None\<close> sets it to null.
\<close>

record ProjectUpdates =
  pu_id :: "uuid option"
  pu_name :: "string option"
  pu_description :: "string option option"
  pu_inviteCode :: "string option"
  pu_status :: "string option"
  pu_deadline :: "timestamp option option"
  pu_createdBy :: "uuid option"
  pu_createdAt :: "timestamp option"
  pu_updatedAt :: "timestamp option"

record TaskUpdates =
  tu_id :: "uuid option"
  tu_title :: "string option"
  tu_description :: "string option option"
  tu_status :: "string option"
  tu_priority :: "string option"
  tu_projectId :: "uuid option"
  tu_assigneeId :: "uuid option option"
  tu_createdBy :: "uuid option"
  tu_createdAt :: "timestamp option"
  tu_updatedAt :: "timestamp option"

text \<open>Extended types for API responses: the row, spread, plus the joined rows
  (\<open>user\<close>, \<open>members\<close>, \<open>tasks\<close>, \<open>creator\<close>, \<open>assignee\<close>, \<open>project\<close>, prefixed).\<close>

record MemberWithUser = ProjectMember +
  mw_user :: "User option"

record ProjectWithMembers = Project +
  pw_members :: "MemberWithUser list"
  pw_tasks :: "Task list"
  pw_creator :: "User option"

record TaskWithDetails = Task +
  td_assignee :: "User option"
  td_creator :: "User option"
  td_project :: "Project option"

section \<open>The database\<close>

record Db =
  db_users :: "User list"
  db_projects :: "Project list"
  db_projectMembers :: "ProjectMember list"
  db_tasks :: "Task list"

text \<open>
  What a request takes from outside the program: the clock (\<open>new Date()\<close>,
  \<open>defaultNow()\<close>, in seconds), the identifiers \<open>gen_random_uuid()\<close> hands out during
  the request (the k-th one), the bytes \<open>crypto.randomBytes\<close> returns, the salted
  \<open>bcrypt.hash\<close>, and the process environment's \<open>JWT_SECRET\<close>.
\<close>

record Env =
  now :: timestamp
  gen_random_uuid :: "nat \<Rightarrow> uuid"
  entropy :: "nat \<Rightarrow> 8 word"
  bcrypt_hash :: "string \<Rightarrow> string"
  env_JWT_SECRET :: "string option"

subsection \<open>Table constraints\<close>

text \<open>
  The constraints the schema declares: primary keys, the unique columns, \<open>varchar\<close>
  lengths, enum values and foreign keys. PostgreSQL refuses a statement whose result
  would break one of them; the statement then changes nothing and the driver throws.
\<close>

definition user_row_ok :: "User \<Rightarrow> bool" where
  "user_row_ok u =
     (length (u_firstName u) \<le> 100 \<and> length (u_lastName u) \<le> 100 \<and>
      length (u_email u) \<le> 255 \<and>
      (case u_profileImageUrl u of None \<Rightarrow> True | Some url \<Rightarrow> length url \<le> 500))"

definition project_row_ok :: "uuid list \<Rightarrow> Project \<Rightarrow> bool" where
  "project_row_ok userIds p =
     (length (p_name p) \<le> 200 \<and> length (p_inviteCode p) \<le> 20 \<and>
      p_status p \<in> set projectStatusEnum \<and> p_createdBy p \<in> set userIds)"

definition member_row_ok :: "uuid list \<Rightarrow> uuid list \<Rightarrow> ProjectMember \<Rightarrow> bool" where
  "member_row_ok userIds projectIds m =
     (m_projectId m \<in> set projectIds \<and> m_userId m \<in> set userIds \<and>
      m_role m \<in> set memberRoleEnum)"

definition task_row_ok :: "uuid list \<Rightarrow> uuid list \<Rightarrow> Task \<Rightarrow> bool" where
  "task_row_ok userIds projectIds t =
     (length (t_title t) \<le> 200 \<and> t_status t \<in> set taskStatusEnum \<and>
      t_priority t \<in> set taskPriorityEnum \<and> t_projectId t \<in> set projectIds \<and>
      (case t_assigneeId t of None \<Rightarrow> True | Some a \<Rightarrow> a \<in> set userIds) \<and>
      t_createdBy t \<in> set userIds)"

definition db_ok :: "Db \<Rightarrow> bool" where
  "db_ok s =
     (let userIds = map u_id (db_users s); projectIds = map p_id (db_projects s) in
      distinct userIds \<and> distinct (map u_email (db_users s)) \<and>
      list_all user_row_ok (db_users s) \<and>
      distinct projectIds \<and> distinct (map p_inviteCode (db_projects s)) \<and>
      list_all (project_row_ok userIds) (db_projects s) \<and>
      distinct (map m_id (db_projectMembers s)) \<and>
      list_all (member_row_ok userIds projectIds) (db_projectMembers s) \<and>
      distinct (map t_id (db_tasks s)) \<and>
      list_all (task_row_ok userIds projectIds) (db_tasks s))"

datatype dbError = ConstraintViolation

text \<open>
  A write statement: the candidate state is stored when it satisfies the constraints,
  otherwise the statement throws and the stored state stays as it was. The check reads
  the whole candidate state; on a state that satisfied the constraints before the
  statement, which is every state the server reaches, that is the check of the rows the
  statement writes.
\<close>

definition commit :: "Db \<Rightarrow> Db \<Rightarrow> 'a \<Rightarrow> Db \<times> (dbError + 'a)" where
  "commit s s' r = (if db_ok s' then (s', Inr r) else (s, Inl ConstraintViolation))"

section \<open>DatabaseStorage (server/storage.ts)\<close>

subsection \<open>User operations\<close>

definition getUser :: "Db \<Rightarrow> uuid \<Rightarrow> User option" where
  "getUser s ident = find (\<lambda>u. u_id u = ident) (db_users s)"

definition getUserByEmail :: "Db \<Rightarrow> string \<Rightarrow> User option" where
  "getUserByEmail s email = find (\<lambda>u. u_email u = email) (db_users s)"

definition createUser :: "Env \<Rightarrow> Db \<Rightarrow> InsertUser \<Rightarrow> Db \<times> (dbError + User)" where
  "createUser env s insertUser =
     (let u = \<lparr>u_id = gen_random_uuid env 0,
                u_firstName = iu_firstName insertUser,
                u_lastName = iu_lastName insertUser,
                u_email = iu_email insertUser,
                u_password = iu_password insertUser,
                u_profileImageUrl = iu_profileImageUrl insertUser,
                u_createdAt = now env,
                u_updatedAt = now env\<rparr>
      in commit s (s\<lparr>db_users := db_users s @ [u]\<rparr>) u)"

subsection \<open>Project operations\<close>

definition getProject :: "Db \<Rightarrow> uuid \<Rightarrow> Project option" where
  "getProject s ident = find (\<lambda>p. p_id p = ident) (db_projects s)"

text \<open>
  \<open>from(a).leftJoin(b, on)\<close>: every row of \<open>a\<close> with each row of \<open>b\<close> that matches,
  or once with null when none does.
\<close>

definition leftJoin :: "'a list \<Rightarrow> 'b list \<Rightarrow> ('a \<Rightarrow> 'b \<Rightarrow> bool) \<Rightarrow> ('a \<times> 'b option) list" where
  "leftJoin as bs on =
     concat (map (\<lambda>a. case filter (on a) bs of
                         [] \<Rightarrow> [(a, None)]
                       | matches \<Rightarrow> map (\<lambda>b. (a, Some b)) matches) as)"

text \<open>
  The body \<open>getProjectWithMembers\<close> and the loop of \<open>getUserProjects\<close> share: the
  members joined with their users, the project's tasks and the creator's row, spread
  around the project row.
\<close>

definition projectWithMembers :: "Db \<Rightarrow> Project \<Rightarrow> ProjectWithMembers" where
  "projectWithMembers s p =
     (let ms = filter (\<lambda>(m, u). m_projectId m = p_id p)
                 (leftJoin (db_projectMembers s) (db_users s) (\<lambda>m u. m_userId m = u_id u));
          projectTasks = filter (\<lambda>t. t_projectId t = p_id p) (db_tasks s);
          creatorRow = find (\<lambda>u. u_id u = p_createdBy p) (db_users s)
      in Project.extend p
           (ProjectWithMembers.fields
              (map (\<lambda>(m, u). ProjectMember.extend m (MemberWithUser.fields u)) ms)
              projectTasks creatorRow))"

definition getProjectWithMembers :: "Db \<Rightarrow> uuid \<Rightarrow> ProjectWithMembers option" where
  "getProjectWithMembers s ident =
     (case find (\<lambda>p. p_id p = ident) (db_projects s) of
        None \<Rightarrow> None
      | Some p \<Rightarrow> Some (projectWithMembers s p))"

text \<open>
  \<open>orderBy(desc(projects.updatedAt))\<close>: rows with equal keys come in an order
  PostgreSQL does not fix; here they keep the reverse of the table's order.
\<close>

definition getUserProjects :: "Db \<Rightarrow> uuid \<Rightarrow> ProjectWithMembers list" where
  "getUserProjects s userId =
     (let projectIds = map m_projectId (filter (\<lambda>m. m_userId m = userId) (db_projectMembers s))
      in if length projectIds = 0 then []
         else map (projectWithMembers s)
                (rev (sort_key p_updatedAt
                   (filter (\<lambda>p. list_ex (\<lambda>i. p_id p = i) projectIds) (db_projects s)))))"

text \<open>
  \<open>randomBytes(8).toString('hex').toUpperCase()\<close>: two lower-case hexadecimal digits
  per byte, then upper-cased.
\<close>

definition randomBytes :: "Env \<Rightarrow> nat \<Rightarrow> 8 word list" where
  "randomBytes env n = map (entropy env) [0..<n]"

definition hexDigits :: string where
  "hexDigits = ''0123456789abcdef''"

definition byteToHex :: "8 word \<Rightarrow> string" where
  "byteToHex b = [hexDigits ! (unat b div 16), hexDigits ! (unat b mod 16)]"

definition toHex :: "8 word list \<Rightarrow> string" where
  "toHex bs = concat (map byteToHex bs)"

definition toUpperCaseChar :: "char \<Rightarrow> char" where
  "toUpperCaseChar c =
     (let n = (of_char c :: nat) in if 97 \<le> n \<and> n \<le> 122 then char_of (n - 32) else c)"

definition toUpperCase :: "string \<Rightarrow> string" where
  "toUpperCase str = map toUpperCaseChar str"

definition generateInviteCode :: "Env \<Rightarrow> string" where
  "generateInviteCode env = toUpperCase (toHex (randomBytes env 8))"

text \<open>
  \<open>createProject\<close> runs two statements with no transaction around them: when the
  second one throws, the project row of the first one stays.
\<close>

definition createProject :: "Env \<Rightarrow> Db \<Rightarrow> InsertProject \<Rightarrow> uuid \<Rightarrow> Db \<times> (dbError + Project)" where
  "createProject env s projectData createdBy =
     (let inviteCode = generateInviteCode env;
          p = \<lparr>p_id = gen_random_uuid env 0,
               p_name = ip_name projectData,
               p_description = ip_description projectData,
               p_inviteCode = inviteCode,
               p_status = (case ip_status projectData of None \<Rightarrow> ''active'' | Some st \<Rightarrow> st),
               p_deadline = ip_deadline projectData,
               p_createdBy = createdBy,
               p_createdAt = now env,
               p_updatedAt = now env\<rparr>
      in case commit s (s\<lparr>db_projects := db_projects s @ [p]\<rparr>) p of
           (s1, Inl e) \<Rightarrow> (s1, Inl e)
         | (s1, Inr project) \<Rightarrow>
             (let m = \<lparr>m_id = gen_random_uuid env 1,
                       m_projectId = p_id project,
                       m_userId = createdBy,
                       m_role = ''owner'',
                       m_joinedAt = now env\<rparr>
              in case commit s1 (s1\<lparr>db_projectMembers := db_projectMembers s1 @ [m]\<rparr>) () of
                   (s2, Inl e) \<Rightarrow> (s2, Inl e)
                 | (s2, Inr _) \<Rightarrow> (s2, Inr project)))"

definition applyProjectSet :: "ProjectUpdates \<Rightarrow> Project \<Rightarrow> Project" where
  "applyProjectSet u p =
     \<lparr>p_id = (case pu_id u of None \<Rightarrow> p_id p | Some v \<Rightarrow> v),
      p_name = (case pu_name u of None \<Rightarrow> p_name p | Some v \<Rightarrow> v),
      p_description = (case pu_description u of None \<Rightarrow> p_description p | Some v \<Rightarrow> v),
      p_inviteCode = (case pu_inviteCode u of None \<Rightarrow> p_inviteCode p | Some v \<Rightarrow> v),
      p_status = (case pu_status u of None \<Rightarrow> p_status p | Some v \<Rightarrow> v),
      p_deadline = (case pu_deadline u of None \<Rightarrow> p_deadline p | Some v \<Rightarrow> v),
      p_createdBy = (case pu_createdBy u of None \<Rightarrow> p_createdBy p | Some v \<Rightarrow> v),
      p_createdAt = (case pu_createdAt u of None \<Rightarrow> p_createdAt p | Some v \<Rightarrow> v),
      p_updatedAt = (case pu_updatedAt u of None \<Rightarrow> p_updatedAt p | Some v \<Rightarrow> v)\<rparr>"

definition updateProject :: "Env \<Rightarrow> Db \<Rightarrow> uuid \<Rightarrow> ProjectUpdates \<Rightarrow> Db \<times> (dbError + Project option)" where
  "updateProject env s ident updates =
     (let setv = updates\<lparr>pu_updatedAt := Some (now env)\<rparr>;
          returning = map (applyProjectSet setv) (filter (\<lambda>p. p_id p = ident) (db_projects s))
      in commit s
           (s\<lparr>db_projects :=
                 map (\<lambda>p. if p_id p = ident then applyProjectSet setv p else p) (db_projects s)\<rparr>)
           (case returning of [] \<Rightarrow> None | project # _ \<Rightarrow> Some project))"

text \<open>
  \<open>project_members.project_id\<close> and \<open>tasks.project_id\<close> reference the project with
  \<open>onDelete: "cascade"\<close>: the rows that point to a deleted project go with it.
\<close>

definition deleteProject :: "Db \<Rightarrow> uuid \<Rightarrow> Db \<times> bool" where
  "deleteProject s ident =
     (let rowCount = length (filter (\<lambda>p. p_id p = ident) (db_projects s))
      in if rowCount > 0
         then (s\<lparr>db_projects := filter (\<lambda>p. p_id p \<noteq> ident) (db_projects s),
                  db_projectMembers := filter (\<lambda>m. m_projectId m \<noteq> ident) (db_projectMembers s),
                  db_tasks := filter (\<lambda>t. t_projectId t \<noteq> ident) (db_tasks s)\<rparr>, True)
         else (s, False))"

definition getProjectByInviteCode :: "Db \<Rightarrow> string \<Rightarrow> Project option" where
  "getProjectByInviteCode s inviteCode = find (\<lambda>p. p_inviteCode p = inviteCode) (db_projects s)"

subsection \<open>Project member operations\<close>

definition addProjectMember :: "Env \<Rightarrow> Db \<Rightarrow> InsertProjectMember \<Rightarrow> Db \<times> (dbError + ProjectMember)" where
  "addProjectMember env s member =
     (let m = \<lparr>m_id = gen_random_uuid env 0,
               m_projectId = im_projectId member,
               m_userId = im_userId member,
               m_role = (case im_role member of None \<Rightarrow> ''member'' | Some r \<Rightarrow> r),
               m_joinedAt = now env\<rparr>
      in commit s (s\<lparr>db_projectMembers := db_projectMembers s @ [m]\<rparr>) m)"

definition removeProjectMember :: "Db \<Rightarrow> uuid \<Rightarrow> uuid \<Rightarrow> Db \<times> bool" where
  "removeProjectMember s projectId userId =
     (let rowCount = length (filter (\<lambda>m. m_projectId m = projectId \<and> m_userId m = userId)
                               (db_projectMembers s))
      in (s\<lparr>db_projectMembers :=
              filter (\<lambda>m. \<not> (m_projectId m = projectId \<and> m_userId m = userId))
                (db_projectMembers s)\<rparr>, rowCount > 0))"

definition getUserProjectRole :: "Db \<Rightarrow> uuid \<Rightarrow> uuid \<Rightarrow> string option" where
  "getUserProjectRole s projectId userId =
     map_option m_role
       (find (\<lambda>m. m_projectId m = projectId \<and> m_userId m = userId) (db_projectMembers s))"

definition getProjectMembers :: "Db \<Rightarrow> uuid \<Rightarrow> MemberWithUser list" where
  "getProjectMembers s projectId =
     map (\<lambda>(m, u). ProjectMember.extend m (MemberWithUser.fields u))
       (filter (\<lambda>(m, u). m_projectId m = projectId)
          (leftJoin (db_projectMembers s) (db_users s) (\<lambda>m u. m_userId m = u_id u)))"

subsection \<open>Task operations\<close>

text \<open>The rows of \<open>tasks\<close> left-joined with the assignee's user row and the project row.\<close>

definition taskRows :: "Db \<Rightarrow> ((Task \<times> User option) \<times> Project option) list" where
  "taskRows s =
     leftJoin
       (leftJoin (db_tasks s) (db_users s) (\<lambda>t u. t_assigneeId t = Some (u_id u)))
       (db_projects s) (\<lambda>(t, u) p. t_projectId t = p_id p)"

definition taskWithDetails :: "Db \<Rightarrow> (Task \<times> User option) \<times> Project option \<Rightarrow> TaskWithDetails" where
  "taskWithDetails s row =
     (case row of ((t, u), p) \<Rightarrow>
        Task.extend t
          (TaskWithDetails.fields u (find (\<lambda>c. u_id c = t_createdBy t) (db_users s)) p))"

definition getTask :: "Db \<Rightarrow> uuid \<Rightarrow> TaskWithDetails option" where
  "getTask s ident =
     (case filter (\<lambda>((t, u), p). t_id t = ident) (taskRows s) of
        [] \<Rightarrow> None
      | row # _ \<Rightarrow> Some (taskWithDetails s row))"

definition getProjectTasks :: "Db \<Rightarrow> uuid \<Rightarrow> TaskWithDetails list" where
  "getProjectTasks s projectId =
     map (taskWithDetails s)
       (rev (sort_key (\<lambda>((t, u), p). t_createdAt t)
          (filter (\<lambda>((t, u), p). t_projectId t = projectId) (taskRows s))))"

definition getUserTasks :: "Db \<Rightarrow> uuid \<Rightarrow> TaskWithDetails list" where
  "getUserTasks s userId =
     map (taskWithDetails s)
       (rev (sort_key (\<lambda>((t, u), p). t_createdAt t)
          (filter (\<lambda>((t, u), p). t_assigneeId t = Some userId) (taskRows s))))"

definition createTask :: "Env \<Rightarrow> Db \<Rightarrow> InsertTask \<Rightarrow> uuid \<Rightarrow> Db \<times> (dbError + Task)" where
  "createTask env s taskData createdBy =
     (let t = \<lparr>t_id = gen_random_uuid env 0,
               t_title = it_title taskData,
               t_description = it_description taskData,
               t_status = (case it_status taskData of None \<Rightarrow> ''todo'' | Some st \<Rightarrow> st),
               t_priority = (case it_priority taskData of None \<Rightarrow> ''medium'' | Some pr \<Rightarrow> pr),
               t_projectId = it_projectId taskData,
               t_assigneeId = it_assigneeId taskData,
               t_createdBy = createdBy,
               t_createdAt = now env,
               t_updatedAt = now env\<rparr>
      in commit s (s\<lparr>db_tasks := db_tasks s @ [t]\<rparr>) t)"

definition applyTaskSet :: "TaskUpdates \<Rightarrow> Task \<Rightarrow> Task" where
  "applyTaskSet u t =
     \<lparr>t_id = (case tu_id u of None \<Rightarrow> t_id t | Some v \<Rightarrow> v),
      t_title = (case tu_title u of None \<Rightarrow> t_title t | Some v \<Rightarrow> v),
      t_description = (case tu_description u of None \<Rightarrow> t_description t | Some v \<Rightarrow> v),
      t_status = (case tu_status u of None \<Rightarrow> t_status t | Some v \<Rightarrow> v),
      t_priority = (case tu_priority u of None \<Rightarrow> t_priority t | Some v \<Rightarrow> v),
      t_projectId = (case tu_projectId u of None \<Rightarrow> t_projectId t | Some v \<Rightarrow> v),
      t_assigneeId = (case tu_assigneeId u of None \<Rightarrow> t_assigneeId t | Some v \<Rightarrow> v),
      t_createdBy = (case tu_createdBy u of None \<Rightarrow> t_createdBy t | Some v \<Rightarrow> v),
      t_createdAt = (case tu_createdAt u of None \<Rightarrow> t_createdAt t | Some v \<Rightarrow> v),
      t_updatedAt = (case tu_updatedAt u of None \<Rightarrow> t_updatedAt t | Some v \<Rightarrow> v)\<rparr>"

definition updateTask :: "Env \<Rightarrow> Db \<Rightarrow> uuid \<Rightarrow> TaskUpdates \<Rightarrow> Db \<times> (dbError + Task option)" where
  "updateTask env s ident updates =
     (let setv = updates\<lparr>tu_updatedAt := Some (now env)\<rparr>;
          returning = map (applyTaskSet setv) (filter (\<lambda>t. t_id t = ident) (db_tasks s))
      in commit s
           (s\<lparr>db_tasks :=
                 map (\<lambda>t. if t_id t = ident then applyTaskSet setv t else t) (db_tasks s)\<rparr>)
           (case returning of [] \<Rightarrow> None | task # _ \<Rightarrow> Some task))"

definition deleteTask :: "Db \<Rightarrow> uuid \<Rightarrow> Db \<times> bool" where
  "deleteTask s ident =
     (let rowCount = length (filter (\<lambda>t. t_id t = ident) (db_tasks s))
      in (s\<lparr>db_tasks := filter (\<lambda>t. t_id t \<noteq> ident) (db_tasks s)\<rparr>, rowCount > 0))"

section \<open>The HTTP and WebSocket server (server/routes.ts)\<close>

subsection \<open>Responses, tokens and connections\<close>

text \<open>
  A response is its status code with either the \<open>message\<close> of an error body or the
  JSON value sent (\<open>res.status(204).send()\<close> sends the unit value).
\<close>

datatype 'a response = Err nat string | Json nat 'a

text \<open>
  \<open>jsonwebtoken\<close> is taken as ideal: a token is its payload, the key that signed it
  and its expiry, and \<open>verify\<close> accepts exactly the tokens signed with the same key that
  have not expired. \<open>expiresIn: '7d'\<close> is 604800 seconds.
\<close>

record JwtPayload =
  jwt_id :: uuid
  jwt_email :: string

record Token =
  tok_payload :: JwtPayload
  tok_key :: string
  tok_exp :: timestamp

definition JWT_SECRET :: "Env \<Rightarrow> string" where
  "JWT_SECRET env =
     (case env_JWT_SECRET env of
        None \<Rightarrow> ''your-secret-key''
      | Some k \<Rightarrow> if k = [] then ''your-secret-key'' else k)"

definition jwt_sign :: "JwtPayload \<Rightarrow> string \<Rightarrow> timestamp \<Rightarrow> Token" where
  "jwt_sign payload key issuedAt =
     \<lparr>tok_payload = payload, tok_key = key, tok_exp = issuedAt + 604800\<rparr>"

definition jwt_verify :: "Token \<Rightarrow> string \<Rightarrow> timestamp \<Rightarrow> JwtPayload option" where
  "jwt_verify token key clock =
     (if tok_key token = key \<and> clock < tok_exp token then Some (tok_payload token) else None)"

text \<open>
  The WebSocket server's clients: each has a ready state and the frames written to it.
  A frame is the text \<open>JSON.stringify\<close> produced, kept as the object it encodes: the
  envelope \<open>{ projectId, ...data }\<close> of a broadcast, or the \<open>joined_project\<close> answer.
\<close>

datatype readyState = CONNECTING | OPEN | CLOSING | CLOSED

datatype payload =
    ProjectKey Project
  | FullProjectKey "ProjectWithMembers option"
  | TaskKey "TaskWithDetails option"
  | TaskIdKey uuid

record Event =
  ev_type :: string
  ev_payload :: payload

datatype frame = Envelope uuid string payload | JoinedProject uuid

record WebSocket =
  ws_readyState :: readyState
  ws_sent :: "frame list"

record App =
  app_db :: Db
  app_clients :: "WebSocket list"

datatype clientData = JoinProject uuid | OtherType string | NotJson

text \<open>
  \<open>ws.on('message')\<close>: a \<open>join_project\<close> message is answered and nothing is kept
  of it; every other message, and one that does not parse, is dropped.
\<close>

definition ws_on_message :: "clientData \<Rightarrow> WebSocket \<Rightarrow> WebSocket" where
  "ws_on_message received ws =
     (case received of
        JoinProject projectId \<Rightarrow> ws\<lparr>ws_sent := ws_sent ws @ [JoinedProject projectId]\<rparr>
      | OtherType _ \<Rightarrow> ws
      | NotJson \<Rightarrow> ws)"

definition on_message :: "nat \<Rightarrow> clientData \<Rightarrow> App \<Rightarrow> App" where
  "on_message i received app =
     (if i < length (app_clients app)
      then app\<lparr>app_clients := (app_clients app)[i := ws_on_message received (app_clients app ! i)]\<rparr>
      else app)"

definition broadcast :: "uuid \<Rightarrow> Event \<Rightarrow> WebSocket list \<Rightarrow> WebSocket list" where
  "broadcast projectId ev clients =
     map (\<lambda>client.
            if ws_readyState client = OPEN
            then client\<lparr>ws_sent := ws_sent client @ [Envelope projectId (ev_type ev) (ev_payload ev)]\<rparr>
            else client) clients"

subsection \<open>Middleware\<close>

text \<open>
  The credential of a request is the second word of its \<open>Authorization\<close> header,
  \<open>None\<close> when the header or that word is missing. A middleware answers itself or
  hands what it found (the decoded identity, the caller's role) to the handler \<open>next\<close>.
\<close>

definition authenticateToken ::
  "Env \<Rightarrow> Token option \<Rightarrow> (JwtPayload \<Rightarrow> App \<Rightarrow> 'a response \<times> App) \<Rightarrow> App \<Rightarrow> 'a response \<times> App" where
  "authenticateToken env token next app =
     (case token of
        None \<Rightarrow> (Err 401 ''Access token required'', app)
      | Some t \<Rightarrow>
          (case jwt_verify t (JWT_SECRET env) (now env) of
             None \<Rightarrow> (Err 403 ''Invalid token'', app)
           | Some reqUser \<Rightarrow> next reqUser app))"

text \<open>JavaScript's \<open>!role\<close> for a \<open>string | undefined\<close>: undefined or the empty string.\<close>

definition falsy :: "string option \<Rightarrow> bool" where
  "falsy v = (case v of None \<Rightarrow> True | Some str \<Rightarrow> str = [])"

definition checkProjectPermission ::
  "uuid \<Rightarrow> JwtPayload \<Rightarrow> (string \<Rightarrow> App \<Rightarrow> 'a response \<times> App) \<Rightarrow> App \<Rightarrow> 'a response \<times> App" where
  "checkProjectPermission projectId reqUser next app =
     (case getUserProjectRole (app_db app) projectId (jwt_id reqUser) of
        None \<Rightarrow> (Err 403 ''Access denied to this project'', app)
      | Some role \<Rightarrow>
          if role = [] then (Err 403 ''Access denied to this project'', app)
          else next role app)"

subsection \<open>Auth routes\<close>

text \<open>
  Each route below is the handler that runs once \<open>authenticateToken\<close> has set
  \<open>req.user\<close> (the register route has no middleware). A body that a zod schema parses
  is given as the parsed value, \<open>None\<close> when \<open>parse\<close> throws a \<open>ZodError\<close>.
\<close>

record PublicUser =
  pub_id :: uuid
  pub_firstName :: string
  pub_lastName :: string
  pub_email :: string
  pub_profileImageUrl :: "string option"

record AuthResponse =
  ar_token :: Token
  ar_user :: PublicUser

definition publicUser :: "User \<Rightarrow> PublicUser" where
  "publicUser u =
     \<lparr>pub_id = u_id u, pub_firstName = u_firstName u, pub_lastName = u_lastName u,
      pub_email = u_email u, pub_profileImageUrl = u_profileImageUrl u\<rparr>"

definition post_api_auth_register :: "Env \<Rightarrow> InsertUser option \<Rightarrow> App \<Rightarrow> AuthResponse response \<times> App" where
  "post_api_auth_register env parsed app =
     (case parsed of
        None \<Rightarrow> (Err 400 ''Invalid input data'', app)
      | Some userData \<Rightarrow>
          (case getUserByEmail (app_db app) (iu_email userData) of
             Some existingUser \<Rightarrow> (Err 400 ''User already exists'', app)
           | None \<Rightarrow>
               (let hashedPassword = bcrypt_hash env (iu_password userData) in
                case createUser env (app_db app) (userData\<lparr>iu_password := hashedPassword\<rparr>) of
                  (s', Inl e) \<Rightarrow> (Err 500 ''Registration failed'', app\<lparr>app_db := s'\<rparr>)
                | (s', Inr u) \<Rightarrow>
                    (Json 201
                       \<lparr>ar_token = jwt_sign \<lparr>jwt_id = u_id u, jwt_email = u_email u\<rparr>
                                    (JWT_SECRET env) (now env),
                        ar_user = publicUser u\<rparr>,
                     app\<lparr>app_db := s'\<rparr>))))"

definition get_api_auth_me :: "JwtPayload \<Rightarrow> App \<Rightarrow> PublicUser response \<times> App" where
  "get_api_auth_me reqUser app =
     (case getUser (app_db app) (jwt_id reqUser) of
        None \<Rightarrow> (Err 404 ''User not found'', app)
      | Some u \<Rightarrow> (Json 200 (publicUser u), app))"

subsection \<open>Project routes\<close>

definition get_api_projects :: "JwtPayload \<Rightarrow> App \<Rightarrow> ProjectWithMembers list response \<times> App" where
  "get_api_projects reqUser app = (Json 200 (getUserProjects (app_db app) (jwt_id reqUser)), app)"

definition post_api_projects ::
  "Env \<Rightarrow> InsertProject option \<Rightarrow> JwtPayload \<Rightarrow> App \<Rightarrow> ProjectWithMembers option response \<times> App" where
  "post_api_projects env parsed reqUser app =
     (case parsed of
        None \<Rightarrow> (Err 400 ''Invalid input data'', app)
      | Some projectData \<Rightarrow>
          (case createProject env (app_db app) projectData (jwt_id reqUser) of
             (s', Inl e) \<Rightarrow> (Err 500 ''Failed to create project'', app\<lparr>app_db := s'\<rparr>)
           | (s', Inr created) \<Rightarrow>
               (Json 201 (getProjectWithMembers s' (p_id created)), app\<lparr>app_db := s'\<rparr>)))"

definition get_api_project :: "uuid \<Rightarrow> JwtPayload \<Rightarrow> App \<Rightarrow> ProjectWithMembers response \<times> App" where
  "get_api_project projectId reqUser app =
     checkProjectPermission projectId reqUser
       (\<lambda>role app.
          case getProjectWithMembers (app_db app) projectId of
            None \<Rightarrow> (Err 404 ''Project not found'', app)
          | Some found \<Rightarrow> (Json 200 found, app)) app"

definition put_api_project ::
  "Env \<Rightarrow> uuid \<Rightarrow> ProjectUpdates \<Rightarrow> JwtPayload \<Rightarrow> App \<Rightarrow> Project response \<times> App" where
  "put_api_project env projectId body reqUser app =
     checkProjectPermission projectId reqUser
       (\<lambda>role app.
          if role \<noteq> ''owner'' then (Err 403 ''Only project owners can update projects'', app)
          else
            (let updates = body\<lparr>pu_id := None, pu_createdBy := None, pu_inviteCode := None\<rparr> in
             case updateProject env (app_db app) projectId updates of
               (s', Inl e) \<Rightarrow> (Err 500 ''Failed to update project'', app\<lparr>app_db := s'\<rparr>)
             | (s', Inr None) \<Rightarrow> (Err 404 ''Project not found'', app\<lparr>app_db := s'\<rparr>)
             | (s', Inr (Some updated)) \<Rightarrow>
                 (Json 200 updated,
                  \<lparr>app_db = s',
                   app_clients =
                     broadcast projectId
                       \<lparr>ev_type = ''project_updated'', ev_payload = ProjectKey updated\<rparr>
                       (app_clients app)\<rparr>))) app"

definition delete_api_project :: "uuid \<Rightarrow> JwtPayload \<Rightarrow> App \<Rightarrow> unit response \<times> App" where
  "delete_api_project projectId reqUser app =
     checkProjectPermission projectId reqUser
       (\<lambda>role app.
          if role \<noteq> ''owner'' then (Err 403 ''Only project owners can delete projects'', app)
          else
            (case deleteProject (app_db app) projectId of
               (s', False) \<Rightarrow> (Err 404 ''Project not found'', app\<lparr>app_db := s'\<rparr>)
             | (s', True) \<Rightarrow> (Json 204 (), app\<lparr>app_db := s'\<rparr>))) app"

definition post_api_projects_join ::
  "Env \<Rightarrow> string option \<Rightarrow> JwtPayload \<Rightarrow> App \<Rightarrow> ProjectWithMembers option response \<times> App" where
  "post_api_projects_join env inviteCode reqUser app =
     (if falsy inviteCode then (Err 400 ''Invite code required'', app)
      else
        (case getProjectByInviteCode (app_db app) (case inviteCode of None \<Rightarrow> [] | Some c \<Rightarrow> c) of
           None \<Rightarrow> (Err 404 ''Invalid invite code'', app)
         | Some found \<Rightarrow>
             (let existingRole = getUserProjectRole (app_db app) (p_id found) (jwt_id reqUser) in
              if \<not> falsy existingRole then (Err 400 ''Already a member of this project'', app)
              else
                (case addProjectMember env (app_db app)
                        \<lparr>im_projectId = p_id found, im_userId = jwt_id reqUser,
                         im_role = Some ''member''\<rparr> of
                   (s', Inl e) \<Rightarrow> (Err 500 ''Failed to join project'', app\<lparr>app_db := s'\<rparr>)
                 | (s', Inr added) \<Rightarrow>
                     (let fullProject = getProjectWithMembers s' (p_id found) in
                      (Json 200 fullProject,
                       \<lparr>app_db = s',
                        app_clients =
                          broadcast (p_id found)
                            \<lparr>ev_type = ''member_joined'', ev_payload = FullProjectKey fullProject\<rparr>
                            (app_clients app)\<rparr>))))))"

subsection \<open>Task routes\<close>

definition get_api_my_tasks :: "JwtPayload \<Rightarrow> App \<Rightarrow> TaskWithDetails list response \<times> App" where
  "get_api_my_tasks reqUser app = (Json 200 (getUserTasks (app_db app) (jwt_id reqUser)), app)"

definition get_api_project_tasks ::
  "uuid \<Rightarrow> JwtPayload \<Rightarrow> App \<Rightarrow> TaskWithDetails list response \<times> App" where
  "get_api_project_tasks projectId reqUser app =
     checkProjectPermission projectId reqUser
       (\<lambda>role app. (Json 200 (getProjectTasks (app_db app) projectId), app)) app"

text \<open>
  The body is parsed with \<open>projectId\<close> taken from the route:
  \<open>insertTaskSchema.parse({ ...req.body, projectId: req.params.projectId })\<close>.
\<close>

definition post_api_project_tasks ::
  "Env \<Rightarrow> uuid \<Rightarrow> InsertTask option \<Rightarrow> JwtPayload \<Rightarrow> App \<Rightarrow> TaskWithDetails option response \<times> App" where
  "post_api_project_tasks env projectId parsed reqUser app =
     checkProjectPermission projectId reqUser
       (\<lambda>role app.
          case parsed of
            None \<Rightarrow> (Err 400 ''Invalid input data'', app)
          | Some body \<Rightarrow>
              (let taskData = body\<lparr>it_projectId := projectId\<rparr> in
               case createTask env (app_db app) taskData (jwt_id reqUser) of
                 (s', Inl e) \<Rightarrow> (Err 500 ''Failed to create task'', app\<lparr>app_db := s'\<rparr>)
               | (s', Inr created) \<Rightarrow>
                   (let fullTask = getTask s' (t_id created) in
                    (Json 201 fullTask,
                     \<lparr>app_db = s',
                      app_clients =
                        broadcast projectId
                          \<lparr>ev_type = ''task_created'', ev_payload = TaskKey fullTask\<rparr>
                          (app_clients app)\<rparr>)))) app"

definition put_api_task ::
  "Env \<Rightarrow> uuid \<Rightarrow> TaskUpdates \<Rightarrow> JwtPayload \<Rightarrow> App \<Rightarrow> TaskWithDetails option response \<times> App" where
  "put_api_task env taskId body reqUser app =
     (case getTask (app_db app) taskId of
        None \<Rightarrow> (Err 404 ''Task not found'', app)
      | Some task \<Rightarrow>
          (let role = getUserProjectRole (app_db app) (t_projectId task) (jwt_id reqUser) in
           if falsy role then (Err 403 ''Access denied'', app)
           else if role = Some ''member'' \<and> t_assigneeId task \<noteq> Some (jwt_id reqUser) \<and>
                   t_createdBy task \<noteq> jwt_id reqUser
           then (Err 403 ''Can only edit your own tasks'', app)
           else
             (let updates = body\<lparr>tu_id := None, tu_projectId := None, tu_createdBy := None\<rparr> in
              case updateTask env (app_db app) taskId updates of
                (s', Inl e) \<Rightarrow> (Err 500 ''Failed to update task'', app\<lparr>app_db := s'\<rparr>)
              | (s', Inr None) \<Rightarrow> (Err 404 ''Task not found'', app\<lparr>app_db := s'\<rparr>)
              | (s', Inr (Some updatedTask)) \<Rightarrow>
                  (let fullTask = getTask s' (t_id updatedTask) in
                   (Json 200 fullTask,
                    \<lparr>app_db = s',
                     app_clients =
                       broadcast (t_projectId task)
                         \<lparr>ev_type = ''task_updated'', ev_payload = TaskKey fullTask\<rparr>
                         (app_clients app)\<rparr>)))))"

text \<open>
  The PATCH route reads the role for the \<open>projectId\<close> of the route, not for the
  task's project, and has no check on the member's relation to the task.
\<close>

definition patch_api_project_task ::
  "Env \<Rightarrow> uuid \<Rightarrow> uuid \<Rightarrow> TaskUpdates \<Rightarrow> JwtPayload \<Rightarrow> App \<Rightarrow> TaskWithDetails option response \<times> App" where
  "patch_api_project_task env projectId taskId body reqUser app =
     (case getTask (app_db app) taskId of
        None \<Rightarrow> (Err 404 ''Task not found'', app)
      | Some task \<Rightarrow>
          (let role = getUserProjectRole (app_db app) projectId (jwt_id reqUser) in
           if falsy role then (Err 403 ''Access denied'', app)
           else
             (let updates = body\<lparr>tu_id := None, tu_projectId := None, tu_createdBy := None\<rparr> in
              case updateTask env (app_db app) taskId updates of
                (s', Inl e) \<Rightarrow> (Err 500 ''Failed to update task'', app\<lparr>app_db := s'\<rparr>)
              | (s', Inr None) \<Rightarrow> (Err 404 ''Task not found'', app\<lparr>app_db := s'\<rparr>)
              | (s', Inr (Some updatedTask)) \<Rightarrow>
                  (let fullTask = getTask s' (t_id updatedTask) in
                   (Json 200 fullTask,
                    \<lparr>app_db = s',
                     app_clients =
                       broadcast (t_projectId task)
                         \<lparr>ev_type = ''task_updated'', ev_payload = TaskKey fullTask\<rparr>
                         (app_clients app)\<rparr>)))))"

definition delete_api_task :: "uuid \<Rightarrow> JwtPayload \<Rightarrow> App \<Rightarrow> unit response \<times> App" where
  "delete_api_task taskId reqUser app =
     (case getTask (app_db app) taskId of
        None \<Rightarrow> (Err 404 ''Task not found'', app)
      | Some task \<Rightarrow>
          (let role = getUserProjectRole (app_db app) (t_projectId task) (jwt_id reqUser) in
           if falsy role then (Err 403 ''Access denied'', app)
           else if role \<noteq> Some ''owner'' \<and> t_createdBy task \<noteq> jwt_id reqUser
           then (Err 403 ''Only project owners and task creators can delete tasks'', app)
           else
             (case deleteTask (app_db app) taskId of
                (s', False) \<Rightarrow> (Err 404 ''Task not found'', app\<lparr>app_db := s'\<rparr>)
              | (s', True) \<Rightarrow>
                  (Json 204 (),
                   \<lparr>app_db = s',
                    app_clients =
                      broadcast (t_projectId task)
                        \<lparr>ev_type = ''task_deleted'', ev_payload = TaskIdKey taskId\<rparr>
                        (app_clients app)\<rparr>))))"

section \<open>Example data\<close>

text \<open>
  The scenario of the specification's testable properties: Alice owns the project
  ``Sprint 1'', Bob and Dave joined it as members, Alice created the task ``Write spec''
  and assigned it to Bob. Carol owns another project and has no membership in Sprint 1.
  One real-time connection is open (it asked to join Carol's project), one is closed.
\<close>

definition alice :: User where
  "alice = \<lparr>u_id = ''a0000000-0000-4000-8000-000000000001'', u_firstName = ''Alice'',
             u_lastName = ''Archer'', u_email = ''alice@x.com'', u_password = ''$2b$12$alice'',
             u_profileImageUrl = None, u_createdAt = 1, u_updatedAt = 1\<rparr>"

definition bob :: User where
  "bob = \<lparr>u_id = ''b0000000-0000-4000-8000-000000000002'', u_firstName = ''Bob'',
           u_lastName = ''Baker'', u_email = ''bob@x.com'', u_password = ''$2b$12$bob'',
           u_profileImageUrl = None, u_createdAt = 2, u_updatedAt = 2\<rparr>"

definition carol :: User where
  "carol = \<lparr>u_id = ''c0000000-0000-4000-8000-000000000003'', u_firstName = ''Carol'',
             u_lastName = ''Cook'', u_email = ''carol@x.com'', u_password = ''$2b$12$carol'',
             u_profileImageUrl = None, u_createdAt = 3, u_updatedAt = 3\<rparr>"

definition dave :: User where
  "dave = \<lparr>u_id = ''d0000000-0000-4000-8000-000000000004'', u_firstName = ''Dave'',
            u_lastName = ''Dyer'', u_email = ''dave@x.com'', u_password = ''$2b$12$dave'',
            u_profileImageUrl = None, u_createdAt = 4, u_updatedAt = 4\<rparr>"

definition sprint1 :: Project where
  "sprint1 = \<lparr>p_id = ''10000000-0000-4000-8000-0000000000a1'', p_name = ''Sprint 1'',
               p_description = None, p_inviteCode = ''0123456789ABCDEF'', p_status = ''active'',
               p_deadline = None, p_createdBy = u_id alice, p_createdAt = 5, p_updatedAt = 5\<rparr>"

definition backlog :: Project where
  "backlog = \<lparr>p_id = ''20000000-0000-4000-8000-0000000000a2'', p_name = ''Backlog'',
               p_description = None, p_inviteCode = ''FEDCBA9876543210'', p_status = ''active'',
               p_deadline = None, p_createdBy = u_id carol, p_createdAt = 6, p_updatedAt = 6\<rparr>"

definition write_spec :: Task where
  "write_spec = \<lparr>t_id = ''30000000-0000-4000-8000-0000000000b1'', t_title = ''Write spec'',
                  t_description = None, t_status = ''todo'', t_priority = ''medium'',
                  t_projectId = p_id sprint1, t_assigneeId = Some (u_id bob),
                  t_createdBy = u_id alice, t_createdAt = 9, t_updatedAt = 9\<rparr>"

definition example_members :: "ProjectMember list" where
  "example_members =
     [\<lparr>m_id = ''40000000-0000-4000-8000-0000000000c1'', m_projectId = p_id sprint1,
        m_userId = u_id alice, m_role = ''owner'', m_joinedAt = 5\<rparr>,
      \<lparr>m_id = ''50000000-0000-4000-8000-0000000000c2'', m_projectId = p_id backlog,
        m_userId = u_id carol, m_role = ''owner'', m_joinedAt = 6\<rparr>,
      \<lparr>m_id = ''60000000-0000-4000-8000-0000000000c3'', m_projectId = p_id sprint1,
        m_userId = u_id bob, m_role = ''member'', m_joinedAt = 7\<rparr>,
      \<lparr>m_id = ''70000000-0000-4000-8000-0000000000c4'', m_projectId = p_id sprint1,
        m_userId = u_id dave, m_role = ''member'', m_joinedAt = 8\<rparr>]"

definition example_db :: Db where
  "example_db = \<lparr>db_users = [alice, bob, carol, dave], db_projects = [sprint1, backlog],
                  db_projectMembers = example_members, db_tasks = [write_spec]\<rparr>"

definition example_app :: App where
  "example_app =
     \<lparr>app_db = example_db,
      app_clients = [\<lparr>ws_readyState = OPEN, ws_sent = [JoinedProject (p_id backlog)]\<rparr>,
                     \<lparr>ws_readyState = CLOSED, ws_sent = []\<rparr>]\<rparr>"

definition example_env :: Env where
  "example_env =
     \<lparr>now = 100,
      gen_random_uuid = (\<lambda>k. if k = 0 then ''e0000000-0000-4000-8000-0000000000d0''
                             else ''e1000000-0000-4000-8000-0000000000d1''),
      entropy = (\<lambda>k. 171),
      bcrypt_hash = (\<lambda>pw. ''$2b$12$'' @ pw),
      env_JWT_SECRET = None\<rparr>"

definition reqUser_of :: "User \<Rightarrow> JwtPayload" where
  "reqUser_of u = \<lparr>jwt_id = u_id u, jwt_email = u_email u\<rparr>"

definition empty_project_body :: ProjectUpdates where
  "empty_project_body =
     \<lparr>pu_id = None, pu_name = None, pu_description = None, pu_inviteCode = None,
      pu_status = None, pu_deadline = None, pu_createdBy = None, pu_createdAt = None,
      pu_updatedAt = None\<rparr>"

definition empty_task_body :: TaskUpdates where
  "empty_task_body =
     \<lparr>tu_id = None, tu_title = None, tu_description = None, tu_status = None,
      tu_priority = None, tu_projectId = None, tu_assigneeId = None, tu_createdBy = None,
      tu_createdAt = None, tu_updatedAt = None\<rparr>"

definition hostile_project_body :: ProjectUpdates where
  "hostile_project_body =
     empty_project_body\<lparr>pu_id := Some (p_id backlog), pu_name := Some ''Renamed'',
                         pu_createdBy := Some (u_id carol), pu_inviteCode := Some ''AAAAAAAAAAAAAAAA''\<rparr>"

definition hostile_task_body :: TaskUpdates where
  "hostile_task_body =
     empty_task_body\<lparr>tu_id := Some ''99999999-0000-4000-8000-000000000000'',
                      tu_projectId := Some (p_id backlog), tu_createdBy := Some (u_id carol),
                      tu_status := Some ''done''\<rparr>"

definition sprint2 :: InsertProject where
  "sprint2 = \<lparr>ip_name = ''Sprint 2'', ip_description = Some ''What comes next'',
               ip_status = None, ip_deadline = None\<rparr>"

text \<open>A token's identity that no stored user has.\<close>

definition ghost :: JwtPayload where
  "ghost = \<lparr>jwt_id = ''f0000000-0000-4000-8000-00000000000f'', jwt_email = ''ghost@x.com''\<rparr>"

definition erin_signup :: InsertUser where
  "erin_signup = \<lparr>iu_firstName = ''Erin'', iu_lastName = ''Evans'', iu_email = ''erin@x.com'',
                   iu_password = ''correct horse'', iu_profileImageUrl = None\<rparr>"

section \<open>Properties of hydrated responses\<close>

text \<open>
  A hydrated project embeds stored user rows when it has one member entry for each
  membership row of the project, in the order of the table, every member's \<open>user\<close> and
  the \<open>creator\<close> are exactly the rows \<open>getUser\<close> finds for the ids the row refers to
  (whole \<open>User\<close> records, \<open>password\<close> included), and none is missing. A hydrated task
  embeds stored user rows when the same holds of its \<open>creator\<close> and, when the task has an
  assignee, of its \<open>assignee\<close>. \<open>member_of s userId p\<close> says that the membership table
  has a row for the user and the project.
\<close>

definition project_embeds_stored_users :: "Db \<Rightarrow> ProjectWithMembers \<Rightarrow> bool" where
  "project_embeds_stored_users s pw =
     (map m_id (pw_members pw)
        = map m_id (filter (\<lambda>m. m_projectId m = p_id pw) (db_projectMembers s)) \<and>
      list_all (\<lambda>mu. mw_user mu = getUser s (m_userId mu) \<and> mw_user mu \<noteq> None) (pw_members pw) \<and>
      pw_creator pw = getUser s (p_createdBy pw) \<and> pw_creator pw \<noteq> None)"

definition task_embeds_stored_users :: "Db \<Rightarrow> TaskWithDetails \<Rightarrow> bool" where
  "task_embeds_stored_users s td =
     (td_assignee td = (case t_assigneeId td of None \<Rightarrow> None | Some a \<Rightarrow> getUser s a) \<and>
      (t_assigneeId td = None \<or> td_assignee td \<noteq> None) \<and>
      td_creator td = getUser s (t_createdBy td) \<and> td_creator td \<noteq> None)"

definition member_of :: "Db \<Rightarrow> uuid \<Rightarrow> Project \<Rightarrow> bool" where
  "member_of s userId p =
     list_ex (\<lambda>m. m_userId m = userId \<and> m_projectId m = p_id p) (db_projectMembers s)"

section \<open>Broadcast\<close>

lemma broadcast_length: "length (broadcast projectId ev clients) = length clients"
  by (simp add: broadcast_def)

lemma broadcast_nth:
  "i < length clients \<Longrightarrow>
   broadcast projectId ev clients ! i =
     (if ws_readyState (clients ! i) = OPEN
      then (clients ! i)\<lparr>ws_sent := ws_sent (clients ! i) @ [Envelope projectId (ev_type ev) (ev_payload ev)]\<rparr>
      else clients ! i)"
  by (simp add: broadcast_def)

lemma on_message_readyState:
  "map ws_readyState (app_clients (on_message j received app)) = map ws_readyState (app_clients app)"
  by (cases received) (simp_all add: on_message_def ws_on_message_def map_update list_update_same_conv)

text \<open>
  C10. A published event reaches every open connection: \<open>broadcast\<close> keeps the list of
  connections and their ready states, appends the envelope (project id, event kind,
  payload) to the frames of each connection that is \<open>OPEN\<close> and leaves the others as
  they were. A \<open>join_project\<close> message changes nothing of this: whatever project a
  connection asked to join, an open connection's last frame after a broadcast is the
  envelope of the broadcast's project.
\<close>

theorem broadcast_reaches_every_open_client:
  "length (broadcast projectId ev clients) = length clients \<and>
   (\<forall>i < length clients.
      ws_readyState (broadcast projectId ev clients ! i) = ws_readyState (clients ! i) \<and>
      ws_sent (broadcast projectId ev clients ! i) =
        (if ws_readyState (clients ! i) = OPEN
         then ws_sent (clients ! i) @ [Envelope projectId (ev_type ev) (ev_payload ev)]
         else ws_sent (clients ! i))) \<and>
   (\<forall>j q i. i < length (app_clients app) \<and> ws_readyState (app_clients app ! i) = OPEN \<longrightarrow>
      last (ws_sent (broadcast projectId ev (app_clients (on_message j (JoinProject q) app)) ! i))
        = Envelope projectId (ev_type ev) (ev_payload ev))"
proof (intro conjI allI impI)
  show "length (broadcast projectId ev clients) = length clients"
    by (rule broadcast_length)
next
  fix i assume "i < length clients"
  then show "ws_readyState (broadcast projectId ev clients ! i) = ws_readyState (clients ! i)"
    by (simp add: broadcast_nth)
next
  fix i assume "i < length clients"
  then show "ws_sent (broadcast projectId ev clients ! i) =
        (if ws_readyState (clients ! i) = OPEN
         then ws_sent (clients ! i) @ [Envelope projectId (ev_type ev) (ev_payload ev)]
         else ws_sent (clients ! i))"
    by (simp add: broadcast_nth)
next
  fix j q i
  assume a: "i < length (app_clients app) \<and> ws_readyState (app_clients app ! i) = OPEN"
  let ?cs = "app_clients (on_message j (JoinProject q) app)"
  have len: "length ?cs = length (app_clients app)"
    using arg_cong[OF on_message_readyState[of j "JoinProject q" app], of length] by simp
  have "map ws_readyState ?cs ! i = map ws_readyState (app_clients app) ! i"
    by (simp only: on_message_readyState)
  with a len have "ws_readyState (?cs ! i) = OPEN" by simp
  with a len show "last (ws_sent (broadcast projectId ev ?cs ! i)) =
      Envelope projectId (ev_type ev) (ev_payload ev)"
    by (simp add: broadcast_nth)
qed

theorem broadcast_reaches_every_open_client_witness:
  "ws_sent (broadcast (p_id sprint1)
              \<lparr>ev_type = ''task_deleted'', ev_payload = TaskIdKey (t_id write_spec)\<rparr>
              (app_clients example_app) ! 0)
     = [JoinedProject (p_id backlog),
        Envelope (p_id sprint1) ''task_deleted'' (TaskIdKey (t_id write_spec))] \<and>
   ws_sent (broadcast (p_id sprint1)
              \<lparr>ev_type = ''task_deleted'', ev_payload = TaskIdKey (t_id write_spec)\<rparr>
              (app_clients example_app) ! 1) = [] \<and>
   last (ws_sent (broadcast (p_id sprint1)
                    \<lparr>ev_type = ''task_deleted'', ev_payload = TaskIdKey (t_id write_spec)\<rparr>
                    (app_clients (on_message 0 (JoinProject (p_id backlog)) example_app)) ! 0))
     = Envelope (p_id sprint1) ''task_deleted'' (TaskIdKey (t_id write_spec))"
  using broadcast_reaches_every_open_client
          [of "p_id sprint1" "\<lparr>ev_type = ''task_deleted'', ev_payload = TaskIdKey (t_id write_spec)\<rparr>"
              "app_clients example_app" example_app]
  by (simp add: example_app_def)

section \<open>Storage lemmas\<close>

lemma commit_Inr: "commit s s' r = (s'', Inr x) \<Longrightarrow> s'' = s' \<and> x = r \<and> db_ok s'"
  by (simp add: commit_def split: if_splits)

lemma commit_Inl: "commit s s' r = (s'', Inl e) \<Longrightarrow> s'' = s"
  by (simp add: commit_def split: if_splits)

lemma commit_cases: "fst (commit s s' r) = s \<or> fst (commit s s' r) = s'"
  by (simp add: commit_def)

lemma map_update_projection:
  "(\<And>x. f (g x) = f x) \<Longrightarrow> map f (map (\<lambda>x. if c x then g x else x) xs) = map f xs"
  by (induction xs) auto

lemma find_filter_hd:
  "find P xs = (case filter P xs of [] \<Rightarrow> None | x # _ \<Rightarrow> Some x)"
  by (induction xs) auto

lemma find_map_update:
  "(\<And>x. P (g x) = P x) \<Longrightarrow>
   find P (map (\<lambda>x. if P x then g x else x) xs) = map_option g (find P xs)"
  by (induction xs) auto

lemma leftJoin_Nil: "leftJoin [] bs on = []"
  by (simp add: leftJoin_def)

lemma leftJoin_Cons:
  "leftJoin (a # as) bs on =
     (case filter (on a) bs of [] \<Rightarrow> [(a, None)] | ms \<Rightarrow> map (\<lambda>b. (a, Some b)) ms)
     @ leftJoin as bs on"
  by (simp add: leftJoin_def)

lemma leftJoin_filter_left:
  "filter (\<lambda>(a, b). P a) (leftJoin as bs on) = leftJoin (filter P as) bs on"
proof (induction as)
  case Nil
  show ?case by (simp add: leftJoin_Nil)
next
  case (Cons a as)
  show ?case
  proof (cases "filter (on a) bs")
    case Nil
    with Cons show ?thesis by (simp add: leftJoin_Cons)
  next
    case (Cons b ms)
    with Cons.IH show ?thesis by (simp add: leftJoin_Cons o_def)
  qed
qed

lemma leftJoin_first:
  "(case leftJoin (a # as) bs on of [] \<Rightarrow> z | r # _ \<Rightarrow> f r) = f (a, find (on a) bs)"
  by (cases "filter (on a) bs") (simp_all add: leftJoin_Cons find_filter_hd)

lemma leftJoin_hd:
  "\<exists>rest. leftJoin (a # as) bs on = (a, find (on a) bs) # rest"
  by (cases "filter (on a) bs") (simp_all add: leftJoin_Cons find_filter_hd)

lemma getTask_find:
  "getTask s ident =
     map_option
       (\<lambda>t. taskWithDetails s
               ((t, find (\<lambda>u. t_assigneeId t = Some (u_id u)) (db_users s)),
                find (\<lambda>p. t_projectId t = p_id p) (db_projects s)))
       (find (\<lambda>t. t_id t = ident) (db_tasks s))"
proof -
  have split_eq: "(\<lambda>((t, u), p). t_id t = ident) = (\<lambda>(a, p). (\<lambda>(t, u). t_id t = ident) a)"
    by (simp add: fun_eq_iff split: prod.splits)
  have rows: "filter (\<lambda>((t, u), p). t_id t = ident) (taskRows s) =
      leftJoin (leftJoin (filter (\<lambda>t. t_id t = ident) (db_tasks s)) (db_users s)
                  (\<lambda>t u. t_assigneeId t = Some (u_id u)))
               (db_projects s) (\<lambda>(t, u) p. t_projectId t = p_id p)"
    unfolding taskRows_def split_eq by (simp only: leftJoin_filter_left)
  show ?thesis
  proof (cases "filter (\<lambda>t. t_id t = ident) (db_tasks s)")
    case Nil
    then show ?thesis by (simp add: getTask_def rows leftJoin_Nil find_filter_hd)
  next
    case (Cons t ts)
    obtain r1 where r1: "leftJoin (t # ts) (db_users s) (\<lambda>t u. t_assigneeId t = Some (u_id u))
        = (t, find (\<lambda>u. t_assigneeId t = Some (u_id u)) (db_users s)) # r1"
      using leftJoin_hd[of t ts "db_users s" "\<lambda>t u. t_assigneeId t = Some (u_id u)"] by blast
    show ?thesis
      unfolding getTask_def rows Cons r1
      by (simp add: leftJoin_first find_filter_hd Cons)
  qed
qed

lemma applyProjectSet_identity:
  "pu_id u = None \<Longrightarrow> pu_createdBy u = None \<Longrightarrow> pu_inviteCode u = None \<Longrightarrow>
   p_id (applyProjectSet u p) = p_id p \<and> p_createdBy (applyProjectSet u p) = p_createdBy p \<and>
   p_inviteCode (applyProjectSet u p) = p_inviteCode p"
  by (simp add: applyProjectSet_def)

lemma applyTaskSet_identity:
  "tu_id u = None \<Longrightarrow> tu_projectId u = None \<Longrightarrow> tu_createdBy u = None \<Longrightarrow>
   t_id (applyTaskSet u t) = t_id t \<and> t_projectId (applyTaskSet u t) = t_projectId t \<and>
   t_createdBy (applyTaskSet u t) = t_createdBy t"
  by (simp add: applyTaskSet_def)

lemma commit_projects_projection:
  "map f new = map f (db_projects s) \<Longrightarrow>
   map f (db_projects (fst (commit s (s\<lparr>db_projects := new\<rparr>) r))) = map f (db_projects s)"
  by (simp add: commit_def)

lemma commit_tasks_projection:
  "map f new = map f (db_tasks s) \<Longrightarrow>
   map f (db_tasks (fst (commit s (s\<lparr>db_tasks := new\<rparr>) r))) = map f (db_tasks s)"
  by (simp add: commit_def)

lemma updateProject_identity:
  assumes "pu_id u = None" "pu_createdBy u = None" "pu_inviteCode u = None"
  shows "map (\<lambda>p. (p_id p, p_createdBy p, p_inviteCode p)) (db_projects (fst (updateProject env s ident u)))
         = map (\<lambda>p. (p_id p, p_createdBy p, p_inviteCode p)) (db_projects s)"
proof -
  let ?setv = "u\<lparr>pu_updatedAt := Some (now env)\<rparr>"
  have keep: "\<And>p. (\<lambda>p. (p_id p, p_createdBy p, p_inviteCode p)) (applyProjectSet ?setv p)
                 = (\<lambda>p. (p_id p, p_createdBy p, p_inviteCode p)) p"
    using assms by (simp add: applyProjectSet_identity)
  have "map (\<lambda>p. (p_id p, p_createdBy p, p_inviteCode p))
          (map (\<lambda>p. if p_id p = ident then applyProjectSet ?setv p else p) (db_projects s))
        = map (\<lambda>p. (p_id p, p_createdBy p, p_inviteCode p)) (db_projects s)"
    by (rule map_update_projection) (rule keep)
  then show ?thesis
    unfolding updateProject_def Let_def by (rule commit_projects_projection)
qed

lemma updateProject_others:
  "db_users (fst (updateProject env s ident u)) = db_users s \<and>
   db_projectMembers (fst (updateProject env s ident u)) = db_projectMembers s \<and>
   db_tasks (fst (updateProject env s ident u)) = db_tasks s"
  by (simp add: updateProject_def Let_def commit_def)

lemma updateProject_returning:
  assumes "updateProject env s ident u = (s', Inr (Some updated))"
  shows "\<exists>old. getProject s ident = Some old \<and> updated = applyProjectSet (u\<lparr>pu_updatedAt := Some (now env)\<rparr>) old"
proof -
  from assms have "(case map (applyProjectSet (u\<lparr>pu_updatedAt := Some (now env)\<rparr>))
                          (filter (\<lambda>p. p_id p = ident) (db_projects s)) of
                      [] \<Rightarrow> None | x # _ \<Rightarrow> Some x) = Some updated"
    by (auto simp: updateProject_def Let_def dest: commit_Inr)
  then show ?thesis
    by (cases "filter (\<lambda>p. p_id p = ident) (db_projects s)") (simp_all add: getProject_def find_filter_hd)
qed

lemma updateTask_identity:
  assumes "tu_id u = None" "tu_projectId u = None" "tu_createdBy u = None"
  shows "map (\<lambda>t. (t_id t, t_projectId t, t_createdBy t)) (db_tasks (fst (updateTask env s ident u)))
         = map (\<lambda>t. (t_id t, t_projectId t, t_createdBy t)) (db_tasks s)"
proof -
  let ?setv = "u\<lparr>tu_updatedAt := Some (now env)\<rparr>"
  have keep: "\<And>t. (\<lambda>t. (t_id t, t_projectId t, t_createdBy t)) (applyTaskSet ?setv t)
                 = (\<lambda>t. (t_id t, t_projectId t, t_createdBy t)) t"
    using assms by (simp add: applyTaskSet_identity)
  have "map (\<lambda>t. (t_id t, t_projectId t, t_createdBy t))
          (map (\<lambda>t. if t_id t = ident then applyTaskSet ?setv t else t) (db_tasks s))
        = map (\<lambda>t. (t_id t, t_projectId t, t_createdBy t)) (db_tasks s)"
    by (rule map_update_projection) (rule keep)
  then show ?thesis
    unfolding updateTask_def Let_def by (rule commit_tasks_projection)
qed

lemma updateTask_returning:
  assumes "updateTask env s ident u = (s', Inr (Some updated))"
  shows "\<exists>old. find (\<lambda>t. t_id t = ident) (db_tasks s) = Some old \<and>
               updated = applyTaskSet (u\<lparr>tu_updatedAt := Some (now env)\<rparr>) old \<and>
               s' = s\<lparr>db_tasks := map (\<lambda>t. if t_id t = ident
                                             then applyTaskSet (u\<lparr>tu_updatedAt := Some (now env)\<rparr>) t
                                             else t) (db_tasks s)\<rparr> \<and> db_ok s'"
proof -
  from assms have r: "(case map (applyTaskSet (u\<lparr>tu_updatedAt := Some (now env)\<rparr>))
                          (filter (\<lambda>t. t_id t = ident) (db_tasks s)) of
                      [] \<Rightarrow> None | x # _ \<Rightarrow> Some x) = Some updated"
    and s': "s' = s\<lparr>db_tasks := map (\<lambda>t. if t_id t = ident
                                             then applyTaskSet (u\<lparr>tu_updatedAt := Some (now env)\<rparr>) t
                                             else t) (db_tasks s)\<rparr>" and ok: "db_ok s'"
    by (auto simp: updateTask_def Let_def dest: commit_Inr)
  from r s' ok show ?thesis
    by (cases "filter (\<lambda>t. t_id t = ident) (db_tasks s)") (simp_all add: find_filter_hd)
qed

lemma taskWithDetails_base:
  "t_id (taskWithDetails s ((t, u), p)) = t_id t \<and>
   t_title (taskWithDetails s ((t, u), p)) = t_title t \<and>
   t_description (taskWithDetails s ((t, u), p)) = t_description t \<and>
   t_status (taskWithDetails s ((t, u), p)) = t_status t \<and>
   t_priority (taskWithDetails s ((t, u), p)) = t_priority t \<and>
   t_projectId (taskWithDetails s ((t, u), p)) = t_projectId t \<and>
   t_assigneeId (taskWithDetails s ((t, u), p)) = t_assigneeId t \<and>
   t_createdBy (taskWithDetails s ((t, u), p)) = t_createdBy t"
  by (simp add: taskWithDetails_def Task.defs)

lemma getTask_Some_base:
  assumes "getTask s ident = Some full"
  shows "\<exists>t. find (\<lambda>t. t_id t = ident) (db_tasks s) = Some t \<and>
             t_id full = t_id t \<and> t_title full = t_title t \<and> t_description full = t_description t \<and>
             t_status full = t_status t \<and> t_priority full = t_priority t \<and>
             t_projectId full = t_projectId t \<and> t_assigneeId full = t_assigneeId t \<and>
             t_createdBy full = t_createdBy t"
  using assms unfolding getTask_find by (auto simp: taskWithDetails_base)

lemma getTask_None_iff: "getTask s ident = None \<longleftrightarrow> find (\<lambda>t. t_id t = ident) (db_tasks s) = None"
  unfolding getTask_find by simp

section \<open>Update requests\<close>

lemma put_api_project_db:
  "app_db (snd (put_api_project env projectId body reqUser app)) = app_db app \<or>
   app_db (snd (put_api_project env projectId body reqUser app)) =
     fst (updateProject env (app_db app) projectId
            (body\<lparr>pu_id := None, pu_createdBy := None, pu_inviteCode := None\<rparr>))"
  by (auto simp: put_api_project_def checkProjectPermission_def Let_def
           split: option.splits prod.splits sum.splits if_splits)

lemma put_api_project_Json:
  "fst (put_api_project env projectId body reqUser app) = Json c updated \<Longrightarrow>
   c = 200 \<and> getUserProjectRole (app_db app) projectId (jwt_id reqUser) = Some ''owner'' \<and>
   (\<exists>s'. updateProject env (app_db app) projectId
            (body\<lparr>pu_id := None, pu_createdBy := None, pu_inviteCode := None\<rparr>)
          = (s', Inr (Some updated)))"
  by (auto simp: put_api_project_def checkProjectPermission_def Let_def
           split: option.splits prod.splits sum.splits if_splits)

lemma put_api_task_db:
  "app_db (snd (put_api_task env taskId body reqUser app)) = app_db app \<or>
   app_db (snd (put_api_task env taskId body reqUser app)) =
     fst (updateTask env (app_db app) taskId
            (body\<lparr>tu_id := None, tu_projectId := None, tu_createdBy := None\<rparr>))"
  by (auto simp: put_api_task_def Let_def
           split: option.splits prod.splits sum.splits if_splits)

lemma patch_api_project_task_db:
  "app_db (snd (patch_api_project_task env projectId taskId body reqUser app)) = app_db app \<or>
   app_db (snd (patch_api_project_task env projectId taskId body reqUser app)) =
     fst (updateTask env (app_db app) taskId
            (body\<lparr>tu_id := None, tu_projectId := None, tu_createdBy := None\<rparr>))"
  by (auto simp: patch_api_project_task_def Let_def
           split: option.splits prod.splits sum.splits if_splits)

lemma put_api_task_Json:
  "fst (put_api_task env taskId body reqUser app) = Json c full \<Longrightarrow>
   c = 200 \<and>
   (\<exists>task s' updated.
      getTask (app_db app) taskId = Some task \<and>
      \<not> falsy (getUserProjectRole (app_db app) (t_projectId task) (jwt_id reqUser)) \<and>
      \<not> (getUserProjectRole (app_db app) (t_projectId task) (jwt_id reqUser) = Some ''member'' \<and>
         t_assigneeId task \<noteq> Some (jwt_id reqUser) \<and> t_createdBy task \<noteq> jwt_id reqUser) \<and>
      updateTask env (app_db app) taskId
        (body\<lparr>tu_id := None, tu_projectId := None, tu_createdBy := None\<rparr>)
        = (s', Inr (Some updated)) \<and>
      full = getTask s' (t_id updated))"
  by (auto simp: put_api_task_def Let_def
           split: option.splits prod.splits sum.splits if_splits)

lemma patch_api_project_task_Json:
  "fst (patch_api_project_task env projectId taskId body reqUser app) = Json c full \<Longrightarrow>
   c = 200 \<and>
   (\<exists>task s' updated.
      getTask (app_db app) taskId = Some task \<and>
      \<not> falsy (getUserProjectRole (app_db app) projectId (jwt_id reqUser)) \<and>
      updateTask env (app_db app) taskId
        (body\<lparr>tu_id := None, tu_projectId := None, tu_createdBy := None\<rparr>)
        = (s', Inr (Some updated)) \<and>
      full = getTask s' (t_id updated))"
  by (auto simp: patch_api_project_task_def Let_def
           split: option.splits prod.splits sum.splits if_splits)

text \<open>What a successful task update returns, against the task as it was stored.\<close>

lemma updateTask_getTask:
  assumes upd: "updateTask env s taskId u = (s', Inr (Some updated))"
    and strip: "tu_id u = None"
    and full: "getTask s' (t_id updated) = Some full"
  shows "\<exists>old. find (\<lambda>t. t_id t = taskId) (db_tasks s) = Some old \<and>
               t_id full = taskId \<and>
               t_title full = t_title (applyTaskSet (u\<lparr>tu_updatedAt := Some (now env)\<rparr>) old) \<and>
               t_description full = t_description (applyTaskSet (u\<lparr>tu_updatedAt := Some (now env)\<rparr>) old) \<and>
               t_status full = t_status (applyTaskSet (u\<lparr>tu_updatedAt := Some (now env)\<rparr>) old) \<and>
               t_priority full = t_priority (applyTaskSet (u\<lparr>tu_updatedAt := Some (now env)\<rparr>) old) \<and>
               t_projectId full = t_projectId (applyTaskSet (u\<lparr>tu_updatedAt := Some (now env)\<rparr>) old) \<and>
               t_assigneeId full = t_assigneeId (applyTaskSet (u\<lparr>tu_updatedAt := Some (now env)\<rparr>) old) \<and>
               t_createdBy full = t_createdBy (applyTaskSet (u\<lparr>tu_updatedAt := Some (now env)\<rparr>) old)"
proof -
  let ?g = "applyTaskSet (u\<lparr>tu_updatedAt := Some (now env)\<rparr>)"
  from updateTask_returning[OF upd] obtain old where
    old: "find (\<lambda>t. t_id t = taskId) (db_tasks s) = Some old" and
    updated: "updated = ?g old" and
    s': "s' = s\<lparr>db_tasks := map (\<lambda>t. if t_id t = taskId then ?g t else t) (db_tasks s)\<rparr>"
    by blast
  have keep: "\<And>t. t_id (?g t) = t_id t" using strip by (simp add: applyTaskSet_def)
  from old have oid: "t_id old = taskId" by (auto simp: find_Some_iff)
  with updated keep have uid: "t_id updated = taskId" by simp
  have "find (\<lambda>t. t_id t = taskId) (db_tasks s') = map_option ?g (find (\<lambda>t. t_id t = taskId) (db_tasks s))"
    unfolding s' using find_map_update[of "\<lambda>t. t_id t = taskId" ?g "db_tasks s"] keep by simp
  with old have f': "find (\<lambda>t. t_id t = taskId) (db_tasks s') = Some (?g old)" by simp
  from getTask_Some_base[OF full[unfolded uid]] f' old oid keep
  show ?thesis by auto
qed

text \<open>
  C8. No update request changes an identity column. Whatever the payload, after
  \<open>PUT /api/projects/:projectId\<close> every stored project has the \<open>id\<close>, \<open>createdBy\<close> and
  \<open>inviteCode\<close> it had, and the project returned has those of the stored project it
  updates; after \<open>PUT /api/tasks/:taskId\<close> and after the PATCH route every stored task has
  the \<open>id\<close>, \<open>projectId\<close> and \<open>createdBy\<close> it had, and the task returned has those of
  the stored task it updates. So no update moves a task to another project.
\<close>

theorem update_requests_keep_identity:
  "map (\<lambda>p. (p_id p, p_createdBy p, p_inviteCode p))
     (db_projects (app_db (snd (put_api_project env projectId pbody reqUser app))))
     = map (\<lambda>p. (p_id p, p_createdBy p, p_inviteCode p)) (db_projects (app_db app)) \<and>
   (\<forall>c updated. fst (put_api_project env projectId pbody reqUser app) = Json c updated \<longrightarrow>
      (\<exists>old. getProject (app_db app) projectId = Some old \<and> p_id updated = p_id old \<and>
             p_createdBy updated = p_createdBy old \<and> p_inviteCode updated = p_inviteCode old)) \<and>
   map (\<lambda>t. (t_id t, t_projectId t, t_createdBy t))
     (db_tasks (app_db (snd (put_api_task env taskId tbody reqUser app))))
     = map (\<lambda>t. (t_id t, t_projectId t, t_createdBy t)) (db_tasks (app_db app)) \<and>
   (\<forall>c full. fst (put_api_task env taskId tbody reqUser app) = Json c (Some full) \<longrightarrow>
      (\<exists>old. getTask (app_db app) taskId = Some old \<and> t_id full = t_id old \<and>
             t_projectId full = t_projectId old \<and> t_createdBy full = t_createdBy old)) \<and>
   map (\<lambda>t. (t_id t, t_projectId t, t_createdBy t))
     (db_tasks (app_db (snd (patch_api_project_task env projectId taskId tbody reqUser app))))
     = map (\<lambda>t. (t_id t, t_projectId t, t_createdBy t)) (db_tasks (app_db app)) \<and>
   (\<forall>c full. fst (patch_api_project_task env projectId taskId tbody reqUser app) = Json c (Some full) \<longrightarrow>
      (\<exists>old. getTask (app_db app) taskId = Some old \<and> t_id full = t_id old \<and>
             t_projectId full = t_projectId old \<and> t_createdBy full = t_createdBy old))"
proof -
  let ?pstrip = "pbody\<lparr>pu_id := None, pu_createdBy := None, pu_inviteCode := None\<rparr>"
  let ?tstrip = "tbody\<lparr>tu_id := None, tu_projectId := None, tu_createdBy := None\<rparr>"
  have p1: "map (\<lambda>p. (p_id p, p_createdBy p, p_inviteCode p))
     (db_projects (app_db (snd (put_api_project env projectId pbody reqUser app))))
     = map (\<lambda>p. (p_id p, p_createdBy p, p_inviteCode p)) (db_projects (app_db app))"
    using put_api_project_db[of env projectId pbody reqUser app]
          updateProject_identity[of ?pstrip env "app_db app" projectId]
    by auto
  have p2: "\<exists>old. getProject (app_db app) projectId = Some old \<and> p_id updated = p_id old \<and>
             p_createdBy updated = p_createdBy old \<and> p_inviteCode updated = p_inviteCode old"
    if "fst (put_api_project env projectId pbody reqUser app) = Json c updated" for c updated
  proof -
    from put_api_project_Json[OF that] obtain s' where
      "updateProject env (app_db app) projectId ?pstrip = (s', Inr (Some updated))" by blast
    from updateProject_returning[OF this] show ?thesis
      by (auto simp: applyProjectSet_identity)
  qed
  have t_old: "\<exists>old. getTask s taskId = Some old \<and> t_id full = t_id old \<and>
             t_projectId full = t_projectId old \<and> t_createdBy full = t_createdBy old"
    if upd: "updateTask env s taskId ?tstrip = (s', Inr (Some updated))"
      and full: "getTask s' (t_id updated) = Some full" for s s' updated full
  proof -
    from updateTask_getTask[OF upd _ full] obtain old0 where
      old0: "find (\<lambda>t. t_id t = taskId) (db_tasks s) = Some old0" and
      f: "t_id full = taskId"
         "t_projectId full = t_projectId (applyTaskSet (?tstrip\<lparr>tu_updatedAt := Some (now env)\<rparr>) old0)"
         "t_createdBy full = t_createdBy (applyTaskSet (?tstrip\<lparr>tu_updatedAt := Some (now env)\<rparr>) old0)"
      by auto
    from old0 have id0: "t_id old0 = taskId" by (auto simp: find_Some_iff)
    from old0 obtain old where old: "getTask s taskId = Some old"
      by (cases "getTask s taskId") (simp_all add: getTask_None_iff)
    from getTask_Some_base[OF old] old0 have
      "t_id old = t_id old0" "t_projectId old = t_projectId old0" "t_createdBy old = t_createdBy old0"
      by auto
    with f id0 old show ?thesis by (simp add: applyTaskSet_def)
  qed
  have t1: "map (\<lambda>t. (t_id t, t_projectId t, t_createdBy t))
     (db_tasks (app_db (snd (put_api_task env taskId tbody reqUser app))))
     = map (\<lambda>t. (t_id t, t_projectId t, t_createdBy t)) (db_tasks (app_db app))"
    using put_api_task_db[of env taskId tbody reqUser app]
          updateTask_identity[of ?tstrip env "app_db app" taskId]
    by auto
  have t2: "\<exists>old. getTask (app_db app) taskId = Some old \<and> t_id full = t_id old \<and>
             t_projectId full = t_projectId old \<and> t_createdBy full = t_createdBy old"
    if "fst (put_api_task env taskId tbody reqUser app) = Json c (Some full)" for c full
    using put_api_task_Json[OF that] t_old by metis
  have t3: "map (\<lambda>t. (t_id t, t_projectId t, t_createdBy t))
     (db_tasks (app_db (snd (patch_api_project_task env projectId taskId tbody reqUser app))))
     = map (\<lambda>t. (t_id t, t_projectId t, t_createdBy t)) (db_tasks (app_db app))"
    using patch_api_project_task_db[of env projectId taskId tbody reqUser app]
          updateTask_identity[of ?tstrip env "app_db app" taskId]
    by auto
  have t4: "\<exists>old. getTask (app_db app) taskId = Some old \<and> t_id full = t_id old \<and>
             t_projectId full = t_projectId old \<and> t_createdBy full = t_createdBy old"
    if "fst (patch_api_project_task env projectId taskId tbody reqUser app) = Json c (Some full)" for c full
    using patch_api_project_task_Json[OF that] t_old by metis
  from p1 p2 t1 t2 t3 t4 show ?thesis by blast
qed

theorem update_requests_keep_identity_witness:
  "fst (put_api_project example_env (p_id sprint1) hostile_project_body (reqUser_of alice) example_app)
     = Json 200 (sprint1\<lparr>p_name := ''Renamed'', p_updatedAt := 100\<rparr>) \<and>
   (\<exists>old. getProject (app_db example_app) (p_id sprint1) = Some old \<and>
          p_id (sprint1\<lparr>p_name := ''Renamed'', p_updatedAt := 100\<rparr>) = p_id old \<and>
          p_createdBy (sprint1\<lparr>p_name := ''Renamed'', p_updatedAt := 100\<rparr>) = p_createdBy old \<and>
          p_inviteCode (sprint1\<lparr>p_name := ''Renamed'', p_updatedAt := 100\<rparr>) = p_inviteCode old) \<and>
   fst (put_api_task example_env (t_id write_spec) hostile_task_body (reqUser_of bob) example_app)
     = Json 200 (Some (Task.extend (write_spec\<lparr>t_status := ''done'', t_updatedAt := 100\<rparr>)
                         (TaskWithDetails.fields (Some bob) (Some alice) (Some sprint1)))) \<and>
   (\<exists>old. getTask (app_db example_app) (t_id write_spec) = Some old \<and>
          t_id write_spec = t_id old \<and> t_projectId write_spec = t_projectId old \<and>
          t_createdBy write_spec = t_createdBy old) \<and>
   fst (patch_api_project_task example_env (p_id sprint1) (t_id write_spec) hostile_task_body
          (reqUser_of dave) example_app)
     = Json 200 (Some (Task.extend (write_spec\<lparr>t_status := ''done'', t_updatedAt := 100\<rparr>)
                         (TaskWithDetails.fields (Some bob) (Some alice) (Some sprint1))))"
proof -
  note T = update_requests_keep_identity
             [of example_env "p_id sprint1" hostile_project_body "reqUser_of alice" example_app
                 "t_id write_spec" hostile_task_body]
  note T2 = update_requests_keep_identity
             [of example_env "p_id sprint1" hostile_project_body "reqUser_of bob" example_app
                 "t_id write_spec" hostile_task_body]
  have e1: "fst (put_api_project example_env (p_id sprint1) hostile_project_body (reqUser_of alice) example_app)
     = Json 200 (sprint1\<lparr>p_name := ''Renamed'', p_updatedAt := 100\<rparr>)"
    by code_simp
  have e2: "fst (put_api_task example_env (t_id write_spec) hostile_task_body (reqUser_of bob) example_app)
     = Json 200 (Some (Task.extend (write_spec\<lparr>t_status := ''done'', t_updatedAt := 100\<rparr>)
                         (TaskWithDetails.fields (Some bob) (Some alice) (Some sprint1))))"
    by code_simp
  have e3: "fst (patch_api_project_task example_env (p_id sprint1) (t_id write_spec) hostile_task_body
          (reqUser_of dave) example_app)
     = Json 200 (Some (Task.extend (write_spec\<lparr>t_status := ''done'', t_updatedAt := 100\<rparr>)
                         (TaskWithDetails.fields (Some bob) (Some alice) (Some sprint1))))"
    by code_simp
  have c1: "\<exists>old. getProject (app_db example_app) (p_id sprint1) = Some old \<and>
          p_id (sprint1\<lparr>p_name := ''Renamed'', p_updatedAt := 100\<rparr>) = p_id old \<and>
          p_createdBy (sprint1\<lparr>p_name := ''Renamed'', p_updatedAt := 100\<rparr>) = p_createdBy old \<and>
          p_inviteCode (sprint1\<lparr>p_name := ''Renamed'', p_updatedAt := 100\<rparr>) = p_inviteCode old"
    using T[THEN conjunct2, THEN conjunct1, rule_format, OF e1] .
  have "\<exists>old. getTask (app_db example_app) (t_id write_spec) = Some old \<and>
          t_id (Task.extend (write_spec\<lparr>t_status := ''done'', t_updatedAt := 100\<rparr>)
                         (TaskWithDetails.fields (Some bob) (Some alice) (Some sprint1))) = t_id old \<and>
          t_projectId (Task.extend (write_spec\<lparr>t_status := ''done'', t_updatedAt := 100\<rparr>)
                         (TaskWithDetails.fields (Some bob) (Some alice) (Some sprint1))) = t_projectId old \<and>
          t_createdBy (Task.extend (write_spec\<lparr>t_status := ''done'', t_updatedAt := 100\<rparr>)
                         (TaskWithDetails.fields (Some bob) (Some alice) (Some sprint1))) = t_createdBy old"
    using T2[THEN conjunct2, THEN conjunct2, THEN conjunct2, THEN conjunct1, rule_format, OF e2] .
  then have c2: "\<exists>old. getTask (app_db example_app) (t_id write_spec) = Some old \<and>
          t_id write_spec = t_id old \<and> t_projectId write_spec = t_projectId old \<and>
          t_createdBy write_spec = t_createdBy old"
    by (simp add: Task.defs)
  from e1 c1 e2 c2 e3 show ?thesis by (intro conjI)
qed

section \<open>Authorization of project and task requests\<close>

lemma checkProjectPermission_denied:
  "getUserProjectRole (app_db app) projectId (jwt_id reqUser) = None \<Longrightarrow>
   checkProjectPermission projectId reqUser next app = (Err 403 ''Access denied to this project'', app)"
  by (simp add: checkProjectPermission_def)

text \<open>
  A caller with no membership row for a project is turned away, and nothing stored
  changes, by every project route, by the task list and task creation routes, and by the
  PUT and DELETE task routes, which read the role for the task's own project. The PATCH
  route does so only when the project of the route is the task's project.
\<close>

lemma non_member_denied:
  assumes "getUserProjectRole (app_db app) projectId (jwt_id reqUser) = None"
  shows "get_api_project projectId reqUser app = (Err 403 ''Access denied to this project'', app)"
    and "put_api_project env projectId pbody reqUser app = (Err 403 ''Access denied to this project'', app)"
    and "delete_api_project projectId reqUser app = (Err 403 ''Access denied to this project'', app)"
    and "get_api_project_tasks projectId reqUser app = (Err 403 ''Access denied to this project'', app)"
    and "post_api_project_tasks env projectId parsed reqUser app = (Err 403 ''Access denied to this project'', app)"
    and "getTask (app_db app) taskId = Some task \<Longrightarrow> t_projectId task = projectId \<Longrightarrow>
         put_api_task env taskId tbody reqUser app = (Err 403 ''Access denied'', app)"
    and "getTask (app_db app) taskId = Some task \<Longrightarrow> t_projectId task = projectId \<Longrightarrow>
         delete_api_task taskId reqUser app = (Err 403 ''Access denied'', app)"
    and "getTask (app_db app) taskId = Some task \<Longrightarrow>
         patch_api_project_task env projectId taskId tbody reqUser app = (Err 403 ''Access denied'', app)"
  using assms
  by (simp_all add: get_api_project_def put_api_project_def delete_api_project_def
        get_api_project_tasks_def post_api_project_tasks_def put_api_task_def delete_api_task_def
        patch_api_project_task_def checkProjectPermission_denied falsy_def)

text \<open>
  \<open>GET /api/my-tasks\<close> has no membership check either: it lists the tasks assigned to
  the caller. At the example data Alice assigns ``Write spec'' to Carol with a PUT (the
  assignee only has to be a stored user); Carol, who has no membership row for Sprint 1,
  then reads the task.
\<close>

lemma my_tasks_without_membership:
  "getUserProjectRole (app_db example_app) (t_projectId write_spec) (u_id carol) = None \<and>
   fst (put_api_task example_env (t_id write_spec)
          (empty_task_body\<lparr>tu_assigneeId := Some (Some (u_id carol))\<rparr>)
          (reqUser_of alice) example_app)
     = Json 200 (Some (Task.extend
                         (write_spec\<lparr>t_assigneeId := Some (u_id carol), t_updatedAt := 100\<rparr>)
                         (TaskWithDetails.fields (Some carol) (Some alice) (Some sprint1)))) \<and>
   fst (get_api_my_tasks (reqUser_of carol)
          (snd (put_api_task example_env (t_id write_spec)
                  (empty_task_body\<lparr>tu_assigneeId := Some (Some (u_id carol))\<rparr>)
                  (reqUser_of alice) example_app)))
     = Json 200 [Task.extend
                   (write_spec\<lparr>t_assigneeId := Some (u_id carol), t_updatedAt := 100\<rparr>)
                   (TaskWithDetails.fields (Some carol) (Some alice) (Some sprint1))]"
  by code_simp

text \<open>
  C1. A caller with no membership row for a project is to be refused, with nothing
  stored changed, whenever they read, update or delete the project or one of its tasks,
  also through the PATCH route. The PATCH route does not do so: at the example data Carol
  has no membership row for Sprint 1, the project of the task ``Write spec''; her PATCH
  request names her own project in the route and the task of Sprint 1, and it is answered
  200 and changes the stored task's status.
\<close>

theorem patch_route_project_not_task_project:
  "getUserProjectRole (app_db example_app) (t_projectId write_spec) (u_id carol) = None \<and>
   getUserProjectRole (app_db example_app) (p_id backlog) (u_id carol) = Some ''owner'' \<and>
   fst (patch_api_project_task example_env (p_id backlog) (t_id write_spec)
          (empty_task_body\<lparr>tu_status := Some ''done''\<rparr>) (reqUser_of carol) example_app)
     = Json 200 (Some (Task.extend (write_spec\<lparr>t_status := ''done'', t_updatedAt := 100\<rparr>)
                         (TaskWithDetails.fields (Some bob) (Some alice) (Some sprint1)))) \<and>
   db_tasks (app_db example_app) = [write_spec] \<and>
   db_tasks (app_db (snd (patch_api_project_task example_env (p_id backlog) (t_id write_spec)
          (empty_task_body\<lparr>tu_status := Some ''done''\<rparr>) (reqUser_of carol) example_app)))
     = [write_spec\<lparr>t_status := ''done'', t_updatedAt := 100\<rparr>]"
  by code_simp

text \<open>
  C3. A PATCH request that succeeds is to change the status of the task and no other
  field. The route does not keep to that: at the example data Dave, a member of Sprint 1,
  sends a PATCH request whose body carries no status but a title, a description, a
  priority and an assignee; it is answered 200 and the stored task has the four new
  values, its status as before.
\<close>

theorem patch_changes_other_fields:
  "fst (patch_api_project_task example_env (p_id sprint1) (t_id write_spec)
          (empty_task_body\<lparr>tu_title := Some ''Rewritten'', tu_description := Some (Some ''by Dave''),
                            tu_priority := Some ''high'', tu_assigneeId := Some (Some (u_id dave))\<rparr>)
          (reqUser_of dave) example_app)
     = Json 200 (Some (Task.extend
                         (write_spec\<lparr>t_title := ''Rewritten'', t_description := Some ''by Dave'',
                                      t_priority := ''high'', t_assigneeId := Some (u_id dave),
                                      t_updatedAt := 100\<rparr>)
                         (TaskWithDetails.fields (Some dave) (Some alice) (Some sprint1)))) \<and>
   db_tasks (app_db example_app) = [write_spec] \<and>
   db_tasks (app_db (snd (patch_api_project_task example_env (p_id sprint1) (t_id write_spec)
          (empty_task_body\<lparr>tu_title := Some ''Rewritten'', tu_description := Some (Some ''by Dave''),
                            tu_priority := Some ''high'', tu_assigneeId := Some (Some (u_id dave))\<rparr>)
          (reqUser_of dave) example_app)))
     = [write_spec\<lparr>t_title := ''Rewritten'', t_description := Some ''by Dave'',
                   t_priority := ''high'', t_assigneeId := Some (u_id dave), t_updatedAt := 100\<rparr>]"
  by code_simp






section \<open>Deleting a project\<close>

lemma find_None_filter: "find P xs = None \<longleftrightarrow> filter P xs = []"
  by (induction xs) auto

lemma deleteProject_True:
  assumes "deleteProject s ident = (s', True)"
  shows "db_users s' = db_users s"
    and "db_projects s' = filter (\<lambda>p. p_id p \<noteq> ident) (db_projects s)"
    and "db_projectMembers s' = filter (\<lambda>m. m_projectId m \<noteq> ident) (db_projectMembers s)"
    and "db_tasks s' = filter (\<lambda>t. t_projectId t \<noteq> ident) (db_tasks s)"
    and "filter (\<lambda>p. p_id p = ident) (db_projects s) \<noteq> []"
  using assms by (auto simp: deleteProject_def Let_def split: if_splits)

lemma deleteProject_False: "deleteProject s ident = (s', False) \<Longrightarrow> s' = s"
  by (auto simp: deleteProject_def Let_def split: if_splits)

lemma delete_api_project_Json:
  "fst (delete_api_project projectId reqUser app) = Json c x \<Longrightarrow>
   c = 204 \<and> getUserProjectRole (app_db app) projectId (jwt_id reqUser) = Some ''owner'' \<and>
   deleteProject (app_db app) projectId = (app_db (snd (delete_api_project projectId reqUser app)), True) \<and>
   app_clients (snd (delete_api_project projectId reqUser app)) = app_clients app"
  by (auto simp: delete_api_project_def checkProjectPermission_def
           split: option.splits prod.splits if_splits bool.splits)

lemma getUserProjectRole_None:
  "filter (\<lambda>m. m_projectId m = projectId) (db_projectMembers s) = [] \<Longrightarrow>
   getUserProjectRole s projectId userId = None"
  by (auto simp: getUserProjectRole_def find_None_iff filter_empty_conv)

text \<open>
  C9, as stated, fails on the lookup over HTTP. At the example data Alice, the owner,
  deletes Sprint 1 (204). Her next \<open>GET /api/projects/:projectId\<close> for the deleted
  project is answered 403, not 404, and so is a second DELETE: the membership rows went
  with the project, and the permission check runs before the handler's lookup.
\<close>

theorem lookup_after_delete_counterexample:
  "fst (delete_api_project (p_id sprint1) (reqUser_of alice) example_app) = Json 204 () \<and>
   get_api_project (p_id sprint1) (reqUser_of alice)
     (snd (delete_api_project (p_id sprint1) (reqUser_of alice) example_app))
   = (Err 403 ''Access denied to this project'',
      snd (delete_api_project (p_id sprint1) (reqUser_of alice) example_app)) \<and>
   fst (delete_api_project (p_id sprint1) (reqUser_of alice)
     (snd (delete_api_project (p_id sprint1) (reqUser_of alice) example_app)))
   = Err 403 ''Access denied to this project''"
  by code_simp

text \<open>
  C9, amended. After a project deletion that succeeds, the stored tables are the old
  ones without the project, without every membership row and without every task row of
  that project (users are untouched); the storage lookups \<open>getProject\<close>,
  \<open>getProjectWithMembers\<close> and \<open>getProjectTasks\<close> for its id find nothing; and the
  route \<open>GET /api/projects/:projectId\<close> answers every caller with 403.
\<close>

theorem delete_project_cascades:
  "fst (delete_api_project projectId reqUser app) = Json c x \<longrightarrow>
   (let app' = snd (delete_api_project projectId reqUser app); s = app_db app; s' = app_db app' in
      db_projects s' = filter (\<lambda>p. p_id p \<noteq> projectId) (db_projects s) \<and>
      db_projectMembers s' = filter (\<lambda>m. m_projectId m \<noteq> projectId) (db_projectMembers s) \<and>
      db_tasks s' = filter (\<lambda>t. t_projectId t \<noteq> projectId) (db_tasks s) \<and>
      db_users s' = db_users s \<and>
      filter (\<lambda>m. m_projectId m = projectId) (db_projectMembers s') = [] \<and>
      filter (\<lambda>t. t_projectId t = projectId) (db_tasks s') = [] \<and>
      getProject s' projectId = None \<and>
      getProjectWithMembers s' projectId = None \<and>
      getProjectTasks s' projectId = [] \<and>
      (\<forall>caller. get_api_project projectId caller app'
                  = (Err 403 ''Access denied to this project'', app')))"
proof
  assume a: "fst (delete_api_project projectId reqUser app) = Json c x"
  define app' where "app' = snd (delete_api_project projectId reqUser app)"
  from delete_api_project_Json[OF a]
  have d: "deleteProject (app_db app) projectId = (app_db app', True)"
    by (simp add: app'_def)
  note D = deleteProject_True[OF d]
  have m: "filter (\<lambda>m. m_projectId m = projectId) (db_projectMembers (app_db app')) = []"
    by (simp add: D filter_empty_conv)
  have t: "filter (\<lambda>t. t_projectId t = projectId) (db_tasks (app_db app')) = []"
    by (simp add: D filter_empty_conv)
  have p: "getProject (app_db app') projectId = None"
    by (simp add: getProject_def D find_None_iff)
  then have pw: "getProjectWithMembers (app_db app') projectId = None"
    by (simp add: getProjectWithMembers_def getProject_def)
  have split_eq: "(\<lambda>((t, u), p). t_projectId t = projectId) = (\<lambda>(a, p). (\<lambda>(t, u). t_projectId t = projectId) a)"
    by (simp add: fun_eq_iff split: prod.splits)
  have pt: "getProjectTasks (app_db app') projectId = []"
    unfolding getProjectTasks_def taskRows_def split_eq
    by (simp only: leftJoin_filter_left t leftJoin_Nil) simp
  have g: "get_api_project projectId caller app' = (Err 403 ''Access denied to this project'', app')" for caller
    by (simp add: get_api_project_def checkProjectPermission_denied getUserProjectRole_None[OF m])
  from D m t p pw pt g show "let app' = snd (delete_api_project projectId reqUser app); s = app_db app; s' = app_db app' in
      db_projects s' = filter (\<lambda>p. p_id p \<noteq> projectId) (db_projects s) \<and>
      db_projectMembers s' = filter (\<lambda>m. m_projectId m \<noteq> projectId) (db_projectMembers s) \<and>
      db_tasks s' = filter (\<lambda>t. t_projectId t \<noteq> projectId) (db_tasks s) \<and>
      db_users s' = db_users s \<and>
      filter (\<lambda>m. m_projectId m = projectId) (db_projectMembers s') = [] \<and>
      filter (\<lambda>t. t_projectId t = projectId) (db_tasks s') = [] \<and>
      getProject s' projectId = None \<and>
      getProjectWithMembers s' projectId = None \<and>
      getProjectTasks s' projectId = [] \<and>
      (\<forall>caller. get_api_project projectId caller app'
                  = (Err 403 ''Access denied to this project'', app'))"
    unfolding Let_def app'_def[symmetric] by blast
qed

theorem delete_project_cascades_witness:
  "fst (delete_api_project (p_id sprint1) (reqUser_of alice) example_app) = Json 204 () \<and>
   db_projects (app_db (snd (delete_api_project (p_id sprint1) (reqUser_of alice) example_app))) = [backlog] \<and>
   db_projectMembers (app_db (snd (delete_api_project (p_id sprint1) (reqUser_of alice) example_app)))
     = [example_members ! 1] \<and>
   db_tasks (app_db (snd (delete_api_project (p_id sprint1) (reqUser_of alice) example_app))) = [] \<and>
   getProject (app_db (snd (delete_api_project (p_id sprint1) (reqUser_of alice) example_app))) (p_id sprint1) = None \<and>
   get_api_project (p_id sprint1) (reqUser_of bob)
     (snd (delete_api_project (p_id sprint1) (reqUser_of alice) example_app))
   = (Err 403 ''Access denied to this project'',
      snd (delete_api_project (p_id sprint1) (reqUser_of alice) example_app))"
proof -
  have e: "fst (delete_api_project (p_id sprint1) (reqUser_of alice) example_app) = Json 204 ()"
    by code_simp
  have f: "filter (\<lambda>p. p_id p \<noteq> p_id sprint1) (db_projects (app_db example_app)) = [backlog]"
      "filter (\<lambda>m. m_projectId m \<noteq> p_id sprint1) (db_projectMembers (app_db example_app)) = [example_members ! 1]"
      "filter (\<lambda>t. t_projectId t \<noteq> p_id sprint1) (db_tasks (app_db example_app)) = []"
    by code_simp+
  from delete_project_cascades[of "p_id sprint1" "reqUser_of alice" example_app 204 "()", rule_format, OF e]
  show ?thesis unfolding Let_def using e f by simp
qed

section \<open>Creating a project\<close>

lemma db_ok_D:
  assumes "db_ok s"
  shows "distinct (map u_id (db_users s))" and "distinct (map u_email (db_users s))"
    and "distinct (map p_id (db_projects s))" and "distinct (map p_inviteCode (db_projects s))"
    and "distinct (map m_id (db_projectMembers s))" and "distinct (map t_id (db_tasks s))"
    and "\<And>m. m \<in> set (db_projectMembers s) \<Longrightarrow>
           m_projectId m \<in> p_id ` set (db_projects s) \<and> m_userId m \<in> u_id ` set (db_users s) \<and>
           m_role m \<in> set memberRoleEnum"
    and "\<And>t. t \<in> set (db_tasks s) \<Longrightarrow>
           t_projectId t \<in> p_id ` set (db_projects s) \<and> t_createdBy t \<in> u_id ` set (db_users s) \<and>
           (\<forall>a. t_assigneeId t = Some a \<longrightarrow> a \<in> u_id ` set (db_users s))"
    and "\<And>p. p \<in> set (db_projects s) \<Longrightarrow> p_createdBy p \<in> u_id ` set (db_users s)"
  using assms
  by (auto simp: db_ok_def Let_def list_all_iff member_row_ok_def task_row_ok_def project_row_ok_def
           split: option.splits)

lemma createProject_Inr:
  assumes "createProject env s projectData createdBy = (s', Inr created)"
  defines "p \<equiv> \<lparr>p_id = gen_random_uuid env 0, p_name = ip_name projectData,
               p_description = ip_description projectData,
               p_inviteCode = generateInviteCode env,
               p_status = (case ip_status projectData of None \<Rightarrow> ''active'' | Some st \<Rightarrow> st),
               p_deadline = ip_deadline projectData, p_createdBy = createdBy,
               p_createdAt = now env, p_updatedAt = now env\<rparr>"
  defines "m \<equiv> \<lparr>m_id = gen_random_uuid env 1, m_projectId = gen_random_uuid env 0,
               m_userId = createdBy, m_role = ''owner'', m_joinedAt = now env\<rparr>"
  shows "created = p"
    and "s' = s\<lparr>db_projects := db_projects s @ [p], db_projectMembers := db_projectMembers s @ [m]\<rparr>"
    and "db_ok (s\<lparr>db_projects := db_projects s @ [p]\<rparr>)"
    and "db_ok s'"
  using assms(1) unfolding p_def m_def
  by (auto simp: createProject_def Let_def commit_def split: if_splits)

lemma createProject_sole_owner:
  assumes ok: "db_ok s" and c: "createProject env s projectData createdBy = (s', Inr created)"
  shows "filter (\<lambda>m. m_projectId m = p_id created) (db_projectMembers s')
           = [\<lparr>m_id = gen_random_uuid env 1, m_projectId = p_id created,
               m_userId = createdBy, m_role = ''owner'', m_joinedAt = now env\<rparr>]"
proof -
  note C = createProject_Inr[OF c]
  have pid: "p_id created = gen_random_uuid env 0" by (simp add: C(1))
  from db_ok_D(3)[OF C(3)] have fresh: "gen_random_uuid env 0 \<notin> p_id ` set (db_projects s)"
    by simp
  have "m_projectId x \<noteq> gen_random_uuid env 0" if "x \<in> set (db_projectMembers s)" for x
  proof -
    from db_ok_D(7)[OF ok that] have "m_projectId x \<in> p_id ` set (db_projects s)" by simp
    with fresh show ?thesis by auto
  qed
  then have "filter (\<lambda>m. m_projectId m = gen_random_uuid env 0) (db_projectMembers s) = []"
    by (simp add: filter_empty_conv)
  then show ?thesis by (simp add: C(2) pid)
qed

lemma filter_distinct_key:
  "distinct (map f xs) \<Longrightarrow>
   filter (\<lambda>x. k = f x) xs = (case find (\<lambda>x. k = f x) xs of None \<Rightarrow> [] | Some x \<Rightarrow> [x])"
proof (induction xs)
  case Nil
  show ?case by simp
next
  case (Cons a xs)
  show ?case
  proof (cases "k = f a")
    case True
    with Cons.prems have "filter (\<lambda>x. k = f x) xs = []"
      by (auto simp: filter_empty_conv)
    with True show ?thesis by simp
  next
    case False
    with Cons show ?thesis by simp
  qed
qed

lemma leftJoin_distinct:
  "distinct (map f bs) \<Longrightarrow>
   leftJoin as bs (\<lambda>a b. key a = f b) = map (\<lambda>a. (a, find (\<lambda>b. key a = f b) bs)) as"
proof (induction as)
  case Nil
  show ?case by (simp add: leftJoin_Nil)
next
  case (Cons a as)
  then show ?case
    by (simp add: leftJoin_Cons filter_distinct_key split: option.splits)
qed

lemma find_append_fresh:
  "filter P xs = [] \<Longrightarrow> P x \<Longrightarrow> find P (xs @ [x]) = Some x"
  by (induction xs) (auto split: if_splits)

lemma post_api_projects_Json:
  "post_api_projects env parsed reqUser app = (Json c full, app') \<Longrightarrow>
   c = 201 \<and> app_clients app' = app_clients app \<and>
   (\<exists>projectData created.
      parsed = Some projectData \<and>
      createProject env (app_db app) projectData (jwt_id reqUser) = (app_db app', Inr created) \<and>
      full = getProjectWithMembers (app_db app') (p_id created))"
  by (auto simp: post_api_projects_def split: option.splits prod.splits sum.splits)

lemma projectWithMembers_base:
  "p_id (projectWithMembers s p) = p_id p \<and> p_createdBy (projectWithMembers s p) = p_createdBy p \<and>
   p_inviteCode (projectWithMembers s p) = p_inviteCode p \<and> p_name (projectWithMembers s p) = p_name p"
  by (simp add: projectWithMembers_def Let_def Project.defs)

lemma projectWithMembers_members:
  assumes "distinct (map u_id (db_users s))"
  shows "pw_members (projectWithMembers s p) =
           map (\<lambda>m. ProjectMember.extend m
                      (MemberWithUser.fields (find (\<lambda>u. m_userId m = u_id u) (db_users s))))
             (filter (\<lambda>m. m_projectId m = p_id p) (db_projectMembers s))"
proof -
  have "filter (\<lambda>(m, u). m_projectId m = p_id p)
          (leftJoin (db_projectMembers s) (db_users s) (\<lambda>m u. m_userId m = u_id u))
        = leftJoin (filter (\<lambda>m. m_projectId m = p_id p) (db_projectMembers s)) (db_users s)
            (\<lambda>m u. m_userId m = u_id u)"
    by (rule leftJoin_filter_left)
  also have "\<dots> = map (\<lambda>m. (m, find (\<lambda>u. m_userId m = u_id u) (db_users s)))
                     (filter (\<lambda>m. m_projectId m = p_id p) (db_projectMembers s))"
    using assms by (rule leftJoin_distinct)
  finally show ?thesis
    by (simp add: projectWithMembers_def Let_def Project.defs ProjectWithMembers.defs o_def)
qed

lemma extend_member_base:
  "m_id (ProjectMember.extend m x) = m_id m \<and> m_projectId (ProjectMember.extend m x) = m_projectId m \<and>
   m_userId (ProjectMember.extend m x) = m_userId m \<and> m_role (ProjectMember.extend m x) = m_role m"
  by (simp add: ProjectMember.defs)

text \<open>
  C6. When the stored tables satisfy the schema's constraints and a project creation
  succeeds, the membership rows of the new project are exactly one: the creator's, with
  role ``owner''. This holds for \<open>createProject\<close> and for the route
  \<open>POST /api/projects\<close>, whose answer lists that one member.
\<close>

theorem project_creator_is_sole_owner:
  "(db_ok s \<and> createProject env s projectData createdBy = (s', Inr created) \<longrightarrow>
      p_createdBy created = createdBy \<and>
      filter (\<lambda>m. m_projectId m = p_id created) (db_projectMembers s')
        = [\<lparr>m_id = gen_random_uuid env 1, m_projectId = p_id created, m_userId = createdBy,
            m_role = ''owner'', m_joinedAt = now env\<rparr>] \<and>
      getUserProjectRole s' (p_id created) createdBy = Some ''owner'') \<and>
   (db_ok (app_db app) \<and> post_api_projects env parsed reqUser app = (Json c full, app') \<longrightarrow>
      (\<exists>pw. full = Some pw \<and> p_id pw = gen_random_uuid env 0 \<and>
         p_createdBy pw = jwt_id reqUser \<and>
         map (\<lambda>m. (m_userId m, m_role m))
           (filter (\<lambda>m. m_projectId m = p_id pw) (db_projectMembers (app_db app')))
           = [(jwt_id reqUser, ''owner'')] \<and>
         map (\<lambda>m. (m_userId m, m_role m)) (pw_members pw) = [(jwt_id reqUser, ''owner'')]))"
proof -
  have part1: "p_createdBy created = createdBy \<and>
      filter (\<lambda>m. m_projectId m = p_id created) (db_projectMembers s')
        = [\<lparr>m_id = gen_random_uuid env 1, m_projectId = p_id created, m_userId = createdBy,
            m_role = ''owner'', m_joinedAt = now env\<rparr>] \<and>
      getUserProjectRole s' (p_id created) createdBy = Some ''owner''"
    if a: "db_ok s \<and> createProject env s projectData createdBy = (s', Inr created)"
  proof -
  from a have ok: "db_ok s" and c: "createProject env s projectData createdBy = (s', Inr created)"
    by simp_all
  note S = createProject_sole_owner[OF ok c]
  show ?thesis
  proof (intro conjI)
    show "p_createdBy created = createdBy" by (simp add: createProject_Inr(1)[OF c])
    show "filter (\<lambda>m. m_projectId m = p_id created) (db_projectMembers s')
        = [\<lparr>m_id = gen_random_uuid env 1, m_projectId = p_id created, m_userId = createdBy,
            m_role = ''owner'', m_joinedAt = now env\<rparr>]" by (rule S)
    have "filter (\<lambda>m. m_projectId m = p_id created \<and> m_userId m = createdBy) (db_projectMembers s')
        = filter (\<lambda>m. m_userId m = createdBy) (filter (\<lambda>m. m_projectId m = p_id created) (db_projectMembers s'))"
      by (simp add: conj_commute)
    then show "getUserProjectRole s' (p_id created) createdBy = Some ''owner''"
      by (simp add: getUserProjectRole_def find_filter_hd S)
  qed
  qed
  have part2: "\<exists>pw. full = Some pw \<and> p_id pw = gen_random_uuid env 0 \<and>
         p_createdBy pw = jwt_id reqUser \<and>
         map (\<lambda>m. (m_userId m, m_role m))
           (filter (\<lambda>m. m_projectId m = p_id pw) (db_projectMembers (app_db app')))
           = [(jwt_id reqUser, ''owner'')] \<and>
         map (\<lambda>m. (m_userId m, m_role m)) (pw_members pw) = [(jwt_id reqUser, ''owner'')]"
    if a: "db_ok (app_db app) \<and> post_api_projects env parsed reqUser app = (Json c full, app')"
  proof -
  from a have ok: "db_ok (app_db app)" by simp
  from a post_api_projects_Json obtain projectData created where
    c: "createProject env (app_db app) projectData (jwt_id reqUser) = (app_db app', Inr created)" and
    full: "full = getProjectWithMembers (app_db app') (p_id created)"
    by blast
  note C = createProject_Inr[OF c]
  note S = createProject_sole_owner[OF ok c]
  have pid: "p_id created = gen_random_uuid env 0" by (simp add: C(1))
  from db_ok_D(3)[OF C(3)] have "filter (\<lambda>p. p_id p = p_id created) (db_projects (app_db app)) = []"
    by (auto simp: filter_empty_conv pid image_iff)
  then have f: "find (\<lambda>p. p_id p = p_id created) (db_projects (app_db app')) = Some created"
    by (subst C(2)) (simp add: find_append_fresh C(1)[symmetric])
  let ?pw = "projectWithMembers (app_db app') created"
  have 1: "full = Some ?pw" by (simp add: full getProjectWithMembers_def f)
  have 2: "p_createdBy ?pw = jwt_id reqUser" by (simp add: projectWithMembers_base C(1))
  have 3: "map (\<lambda>m. (m_userId m, m_role m))
           (filter (\<lambda>m. m_projectId m = p_id ?pw) (db_projectMembers (app_db app')))
           = [(jwt_id reqUser, ''owner'')]"
    by (simp add: projectWithMembers_base S)
  have 4: "map (\<lambda>m. (m_userId m, m_role m)) (pw_members ?pw) = [(jwt_id reqUser, ''owner'')]"
    by (simp add: projectWithMembers_members[OF db_ok_D(1)[OF C(4)]] S extend_member_base)
  have 5: "p_id ?pw = gen_random_uuid env 0" by (simp add: projectWithMembers_base pid)
  show ?thesis by (intro exI[of _ ?pw] conjI 1 5 2 3 4)
  qed
  show ?thesis by (rule conjI[OF impI[OF part1] impI[OF part2]])
qed


theorem project_creator_is_sole_owner_witness:
  "db_ok (app_db example_app) \<and>
   (case fst (post_api_projects example_env (Some sprint2) (reqUser_of alice) example_app) of
      Json c (Some pw) \<Rightarrow> c = 201 | _ \<Rightarrow> False) \<and>
   map (\<lambda>m. (m_userId m, m_role m))
     (filter (\<lambda>m. m_projectId m = gen_random_uuid example_env 0)
        (db_projectMembers
           (app_db (snd (post_api_projects example_env (Some sprint2) (reqUser_of alice) example_app)))))
     = [(u_id alice, ''owner'')]"
proof -
  let ?r = "post_api_projects example_env (Some sprint2) (reqUser_of alice) example_app"
  have ok: "db_ok (app_db example_app)" by code_simp
  have e: "(case fst ?r of Json c (Some pw) \<Rightarrow> c = 201 | _ \<Rightarrow> False)" by code_simp
  then obtain c pw where "fst ?r = Json c (Some pw)"
    by (auto split: response.splits option.splits)
  then have r: "?r = (Json c (Some pw), snd ?r)" by (simp add: prod_eq_iff)
  have j: "jwt_id (reqUser_of alice) = u_id alice" by (simp add: reqUser_of_def)
  from project_creator_is_sole_owner
         [where app = example_app and env = example_env and parsed = "Some sprint2" and
                reqUser = "reqUser_of alice" and c = c and full = "Some pw" and app' = "snd ?r",
          THEN conjunct2, rule_format, OF conjI[OF ok r]]
  have "map (\<lambda>m. (m_userId m, m_role m))
     (filter (\<lambda>m. m_projectId m = gen_random_uuid example_env 0)
        (db_projectMembers (app_db (snd ?r)))) = [(u_id alice, ''owner'')]"
    by (auto simp: j)
  with ok e show ?thesis by (intro conjI)
qed

section \<open>Invite codes and joining\<close>

lemma upper_hex_digits_all:
  "list_all (\<lambda>n. toUpperCaseChar (hexDigits ! n) \<in> set ''0123456789ABCDEF'') [0..<16]"
  by code_simp

lemma upper_hex_digit:
  assumes "n < 16"
  shows "toUpperCaseChar (hexDigits ! n) \<in> set ''0123456789ABCDEF''"
proof -
  from assms have "n \<in> set [0..<16]" by simp
  with upper_hex_digits_all show ?thesis
    unfolding list_all_iff by blast
qed

lemma byteToHex_upper:
  "set (toUpperCase (byteToHex b)) \<subseteq> set ''0123456789ABCDEF''"
proof -
  have "unat b < 2 ^ LENGTH(8)" by (rule unsigned_less)
  then have "unat b < 256" by simp
  then have "unat b div 16 < 16" and "unat b mod 16 < 16" by simp_all
  then show ?thesis
    using upper_hex_digit[of "unat b div 16"] upper_hex_digit[of "unat b mod 16"]
    by (simp add: toUpperCase_def byteToHex_def)
qed

lemma toHex_length: "length (toHex bs) = 2 * length bs"
  by (induction bs) (simp_all add: toHex_def byteToHex_def)

lemma toHex_upper: "set (toUpperCase (toHex bs)) \<subseteq> set ''0123456789ABCDEF''"
proof (induction bs)
  case Nil
  show ?case by (simp add: toHex_def toUpperCase_def)
next
  case (Cons b bs)
  have "toUpperCase (toHex (b # bs)) = toUpperCase (byteToHex b) @ toUpperCase (toHex bs)"
    by (simp add: toHex_def toUpperCase_def)
  with Cons byteToHex_upper[of b] show ?case by simp
qed

lemma generateInviteCode_format:
  "generateInviteCode env = toUpperCase (toHex (randomBytes env 8)) \<and>
   length (randomBytes env 8) = 8 \<and>
   length (generateInviteCode env) = 16 \<and>
   set (generateInviteCode env) \<subseteq> set ''0123456789ABCDEF''"
  using toHex_upper[of "randomBytes env 8"]
  by (simp add: generateInviteCode_def toHex_length randomBytes_def toUpperCase_def)

lemma db_ok_add_member:
  assumes ok: "db_ok s"
    and fresh: "m_id m \<notin> m_id ` set (db_projectMembers s)"
    and proj: "m_projectId m \<in> p_id ` set (db_projects s)"
    and usr: "m_userId m \<in> u_id ` set (db_users s)"
    and role: "m_role m \<in> set memberRoleEnum"
  shows "db_ok (s\<lparr>db_projectMembers := db_projectMembers s @ [m]\<rparr>)"
  using assms by (simp add: db_ok_def Let_def member_row_ok_def)

lemma getUserProjectRole_None_iff:
  "getUserProjectRole s projectId userId = None \<longleftrightarrow>
   \<not> (\<exists>m \<in> set (db_projectMembers s). m_projectId m = projectId \<and> m_userId m = userId)"
  by (auto simp: getUserProjectRole_def find_None_iff)

lemma getUserProjectRole_in_enum:
  assumes "db_ok s" and "getUserProjectRole s projectId userId = Some r"
  shows "r \<in> set memberRoleEnum"
proof -
  from assms(2) obtain m where "m \<in> set (db_projectMembers s)" and "r = m_role m"
    by (auto simp: getUserProjectRole_def find_Some_iff in_set_conv_nth)
  with db_ok_D(7)[OF assms(1)] show ?thesis by simp
qed

lemma member_role_truthy:
  assumes "db_ok s"
  shows "falsy (getUserProjectRole s projectId userId) \<longleftrightarrow>
         getUserProjectRole s projectId userId = None"
proof (cases "getUserProjectRole s projectId userId")
  case None
  then show ?thesis by (simp add: falsy_def)
next
  case (Some r)
  with getUserProjectRole_in_enum[OF assms Some] show ?thesis
    by (auto simp: falsy_def memberRoleEnum_def)
qed

lemma post_api_projects_join_frame:
  "db_users (app_db (snd (post_api_projects_join env inviteCode reqUser app))) = db_users (app_db app) \<and>
   db_projects (app_db (snd (post_api_projects_join env inviteCode reqUser app))) = db_projects (app_db app) \<and>
   db_tasks (app_db (snd (post_api_projects_join env inviteCode reqUser app))) = db_tasks (app_db app)"
  by (auto simp: post_api_projects_join_def addProjectMember_def commit_def Let_def
           split: option.splits prod.splits sum.splits if_splits)

lemma post_api_projects_join_add:
  fixes env :: Env and reqUser :: JwtPayload and found :: Project and app :: App
  assumes code: "inviteCode = Some code" "code \<noteq> []"
    and found: "getProjectByInviteCode (app_db app) code = Some found"
    and none: "getUserProjectRole (app_db app) (p_id found) (jwt_id reqUser) = None"
  defines "new \<equiv> \<lparr>m_id = gen_random_uuid env 0, m_projectId = p_id found,
                   m_userId = jwt_id reqUser, m_role = ''member'', m_joinedAt = now env\<rparr>"
  defines "s' \<equiv> (app_db app)\<lparr>db_projectMembers := db_projectMembers (app_db app) @ [new]\<rparr>"
  shows "post_api_projects_join env inviteCode reqUser app =
           (if db_ok s'
            then (Json 200 (getProjectWithMembers s' (p_id found)),
                  \<lparr>app_db = s',
                   app_clients = broadcast (p_id found)
                     \<lparr>ev_type = ''member_joined'',
                      ev_payload = FullProjectKey (getProjectWithMembers s' (p_id found))\<rparr>
                     (app_clients app)\<rparr>)
            else (Err 500 ''Failed to join project'', app))"
  using code found none unfolding new_def s'_def
  by (simp add: post_api_projects_join_def falsy_def addProjectMember_def commit_def Let_def)

text \<open>
  C7, as stated, fails on an empty invite code. No project has the empty code, so the
  code of the request resolves to no project; the answer is 400 ``Invite code required'',
  not the not-found error: the handler tests \<open>!inviteCode\<close> before it looks the code up.
\<close>

theorem join_empty_code_counterexample:
  "getProjectByInviteCode (app_db example_app) [] = None \<and>
   post_api_projects_join example_env (Some []) (reqUser_of carol) example_app
     = (Err 400 ''Invite code required'', example_app)"
  by code_simp

text \<open>
  C7, amended. A join request with no invite code or an empty one is answered 400. With
  a non-empty code: when the code resolves to no project the answer is 404; when the
  stored tables satisfy the constraints and the caller has a membership row for the
  resolved project the answer is 400 and the state stays as it was; when the caller has
  none, is a stored user and the new row's id is unused, the answer is 200 and exactly
  one row (resolved project, caller, ``member'') is appended to the memberships; when
  the database refuses the insert the answer is 500 and the state stays as it was. No
  outcome changes the users, the projects (so no invite code is created or changed) or
  the tasks. The code \<open>createProject\<close> stores is the upper-cased hexadecimal text of 8
  random bytes: 16 characters, each one of \<open>0123456789ABCDEF\<close>.
\<close>

theorem join_by_invite_code:
  "(falsy inviteCode \<longrightarrow>
      post_api_projects_join env inviteCode reqUser app = (Err 400 ''Invite code required'', app)) \<and>
   (inviteCode = Some code \<and> code \<noteq> [] \<and> getProjectByInviteCode (app_db app) code = None \<longrightarrow>
      post_api_projects_join env inviteCode reqUser app = (Err 404 ''Invalid invite code'', app)) \<and>
   (db_ok (app_db app) \<and> inviteCode = Some code \<and> code \<noteq> [] \<and>
    getProjectByInviteCode (app_db app) code = Some found \<and>
    list_ex (\<lambda>m. m_projectId m = p_id found \<and> m_userId m = jwt_id reqUser)
      (db_projectMembers (app_db app)) \<longrightarrow>
      post_api_projects_join env inviteCode reqUser app
        = (Err 400 ''Already a member of this project'', app)) \<and>
   (db_ok (app_db app) \<and> inviteCode = Some code \<and> code \<noteq> [] \<and>
    getProjectByInviteCode (app_db app) code = Some found \<and>
    \<not> list_ex (\<lambda>m. m_projectId m = p_id found \<and> m_userId m = jwt_id reqUser)
        (db_projectMembers (app_db app)) \<and>
    list_ex (\<lambda>u. u_id u = jwt_id reqUser) (db_users (app_db app)) \<and>
    \<not> list_ex (\<lambda>m. m_id m = gen_random_uuid env 0) (db_projectMembers (app_db app)) \<longrightarrow>
      (\<exists>full. fst (post_api_projects_join env inviteCode reqUser app) = Json 200 full) \<and>
      db_projectMembers (app_db (snd (post_api_projects_join env inviteCode reqUser app)))
        = db_projectMembers (app_db app) @
          [\<lparr>m_id = gen_random_uuid env 0, m_projectId = p_id found, m_userId = jwt_id reqUser,
            m_role = ''member'', m_joinedAt = now env\<rparr>]) \<and>
   (inviteCode = Some code \<and> code \<noteq> [] \<and>
    getProjectByInviteCode (app_db app) code = Some found \<and>
    getUserProjectRole (app_db app) (p_id found) (jwt_id reqUser) = None \<and>
    \<not> db_ok ((app_db app)\<lparr>db_projectMembers := db_projectMembers (app_db app) @
          [\<lparr>m_id = gen_random_uuid env 0, m_projectId = p_id found, m_userId = jwt_id reqUser,
            m_role = ''member'', m_joinedAt = now env\<rparr>]\<rparr>) \<longrightarrow>
      post_api_projects_join env inviteCode reqUser app = (Err 500 ''Failed to join project'', app)) \<and>
   (db_users (app_db (snd (post_api_projects_join env inviteCode reqUser app))) = db_users (app_db app) \<and>
    db_projects (app_db (snd (post_api_projects_join env inviteCode reqUser app))) = db_projects (app_db app) \<and>
    db_tasks (app_db (snd (post_api_projects_join env inviteCode reqUser app))) = db_tasks (app_db app)) \<and>
   (createProject env s projectData createdBy = (s', Inr created) \<longrightarrow>
      created \<in> set (db_projects s') \<and>
      p_inviteCode created = toUpperCase (toHex (randomBytes env 8)) \<and>
      length (randomBytes env 8) = 8 \<and>
      length (p_inviteCode created) = 16 \<and>
      set (p_inviteCode created) \<subseteq> set ''0123456789ABCDEF'')"
proof -
  let ?r = "post_api_projects_join env inviteCode reqUser app"
  let ?new = "\<lparr>m_id = gen_random_uuid env 0, m_projectId = p_id found, m_userId = jwt_id reqUser,
            m_role = ''member'', m_joinedAt = now env\<rparr>"
  let ?s' = "(app_db app)\<lparr>db_projectMembers := db_projectMembers (app_db app) @ [?new]\<rparr>"
  have p0: "?r = (Err 400 ''Invite code required'', app)" if "falsy inviteCode"
    using that by (simp add: post_api_projects_join_def)
  have p1: "?r = (Err 404 ''Invalid invite code'', app)"
    if "inviteCode = Some code \<and> code \<noteq> [] \<and> getProjectByInviteCode (app_db app) code = None"
    using that by (simp add: post_api_projects_join_def falsy_def)
  have p2: "?r = (Err 400 ''Already a member of this project'', app)"
    if a: "db_ok (app_db app) \<and> inviteCode = Some code \<and> code \<noteq> [] \<and>
      getProjectByInviteCode (app_db app) code = Some found \<and>
      list_ex (\<lambda>m. m_projectId m = p_id found \<and> m_userId m = jwt_id reqUser)
        (db_projectMembers (app_db app))"
  proof -
    from a have "getUserProjectRole (app_db app) (p_id found) (jwt_id reqUser) \<noteq> None"
      by (simp add: getUserProjectRole_None_iff list_ex_iff)
    with a member_role_truthy[of "app_db app" "p_id found" "jwt_id reqUser"]
    have "\<not> falsy (getUserProjectRole (app_db app) (p_id found) (jwt_id reqUser))" by simp
    with a show ?thesis by (simp add: post_api_projects_join_def falsy_def Let_def)
  qed
  have p3: "(\<exists>full. fst ?r = Json 200 full) \<and>
      db_projectMembers (app_db (snd ?r)) = db_projectMembers (app_db app) @ [?new]"
    if a: "db_ok (app_db app) \<and> inviteCode = Some code \<and> code \<noteq> [] \<and>
      getProjectByInviteCode (app_db app) code = Some found \<and>
      \<not> list_ex (\<lambda>m. m_projectId m = p_id found \<and> m_userId m = jwt_id reqUser)
          (db_projectMembers (app_db app)) \<and>
      list_ex (\<lambda>u. u_id u = jwt_id reqUser) (db_users (app_db app)) \<and>
      \<not> list_ex (\<lambda>m. m_id m = gen_random_uuid env 0) (db_projectMembers (app_db app))"
  proof -
    from a have none: "getUserProjectRole (app_db app) (p_id found) (jwt_id reqUser) = None"
      by (simp add: getUserProjectRole_None_iff list_ex_iff)
    from a have "found \<in> set (db_projects (app_db app))"
      by (auto simp: getProjectByInviteCode_def find_Some_iff)
    then have proj: "m_projectId ?new \<in> p_id ` set (db_projects (app_db app))" by simp
    from a obtain u where u: "u \<in> set (db_users (app_db app))" "u_id u = jwt_id reqUser"
      by (auto simp: list_ex_iff)
    have usr: "m_userId ?new \<in> u_id ` set (db_users (app_db app))"
      using imageI[OF u(1), of u_id] u(2) by simp
    from a have fresh: "m_id ?new \<notin> m_id ` set (db_projectMembers (app_db app))"
      by (auto simp: list_ex_iff image_iff)
    have role: "m_role ?new \<in> set memberRoleEnum" by (simp add: memberRoleEnum_def)
    from a have ok: "db_ok (app_db app)" by simp
    have ok': "db_ok ?s'" by (rule db_ok_add_member[OF ok fresh proj usr role])
    from a have c: "inviteCode = Some code" "code \<noteq> []"
      "getProjectByInviteCode (app_db app) code = Some found" by simp_all
    show ?thesis
      by (simp add: post_api_projects_join_add[OF c none] ok')
  qed
  have p4: "?r = (Err 500 ''Failed to join project'', app)"
    if a: "inviteCode = Some code \<and> code \<noteq> [] \<and>
      getProjectByInviteCode (app_db app) code = Some found \<and>
      getUserProjectRole (app_db app) (p_id found) (jwt_id reqUser) = None \<and> \<not> db_ok ?s'"
  proof -
    from a have c: "inviteCode = Some code" "code \<noteq> []"
      "getProjectByInviteCode (app_db app) code = Some found"
      "getUserProjectRole (app_db app) (p_id found) (jwt_id reqUser) = None" by simp_all
    from a have "\<not> db_ok ?s'" by simp
    then show ?thesis by (simp only: post_api_projects_join_add[OF c] if_False)
  qed
  note p5 = post_api_projects_join_frame[of env inviteCode reqUser app]
  have p6: "created \<in> set (db_projects s') \<and>
      p_inviteCode created = toUpperCase (toHex (randomBytes env 8)) \<and>
      length (randomBytes env 8) = 8 \<and>
      length (p_inviteCode created) = 16 \<and>
      set (p_inviteCode created) \<subseteq> set ''0123456789ABCDEF''"
    if a: "createProject env s projectData createdBy = (s', Inr created)"
  proof -
    note C = createProject_Inr[OF a]
    have g: "p_inviteCode created = generateInviteCode env" by (simp add: C(1))
    have "db_projects s' = db_projects s @ [created]"
      by (subst C(2)) (simp add: C(1)[symmetric])
    then have mem: "created \<in> set (db_projects s')" by simp
    note F = generateInviteCode_format[of env]
    show ?thesis unfolding g
      by (intro conjI mem F[THEN conjunct1] F[THEN conjunct2, THEN conjunct1]
            F[THEN conjunct2, THEN conjunct2, THEN conjunct1]
            F[THEN conjunct2, THEN conjunct2, THEN conjunct2])
  qed
  show ?thesis
    by (rule conjI[OF impI[OF p0] conjI[OF impI[OF p1] conjI[OF impI[OF p2]
          conjI[OF impI[OF p3] conjI[OF impI[OF p4] conjI[OF p5 impI[OF p6]]]]]]])
qed

theorem join_by_invite_code_witness:
  "post_api_projects_join example_env None (reqUser_of carol) example_app
     = (Err 400 ''Invite code required'', example_app) \<and>
   post_api_projects_join example_env (Some ''NOSUCHCODE'') (reqUser_of carol) example_app
     = (Err 404 ''Invalid invite code'', example_app) \<and>
   post_api_projects_join example_env (Some ''0123456789ABCDEF'') (reqUser_of bob) example_app
     = (Err 400 ''Already a member of this project'', example_app) \<and>
   db_projectMembers (app_db (snd (post_api_projects_join example_env (Some ''0123456789ABCDEF'')
                                     (reqUser_of carol) example_app)))
     = db_projectMembers (app_db example_app) @
       [\<lparr>m_id = gen_random_uuid example_env 0, m_projectId = p_id sprint1,
         m_userId = jwt_id (reqUser_of carol), m_role = ''member'', m_joinedAt = now example_env\<rparr>] \<and>
   post_api_projects_join example_env (Some ''0123456789ABCDEF'') ghost example_app
     = (Err 500 ''Failed to join project'', example_app) \<and>
   length (p_inviteCode (sprint1\<lparr>p_id := gen_random_uuid example_env 0, p_name := ''Sprint 2'',
             p_description := Some ''What comes next'', p_inviteCode := ''ABABABABABABABAB'',
             p_createdAt := 100, p_updatedAt := 100\<rparr>)) = 16"
proof -
  note T = join_by_invite_code
  have ok: "db_ok (app_db example_app)" by code_simp
  have c0: "post_api_projects_join example_env None (reqUser_of carol) example_app
     = (Err 400 ''Invite code required'', example_app)"
    using T[where inviteCode = None and env = example_env and reqUser = "reqUser_of carol"
              and app = example_app, THEN conjunct1]
    by (simp add: falsy_def)
  have n: "getProjectByInviteCode (app_db example_app) ''NOSUCHCODE'' = None" by code_simp
  have c1: "post_api_projects_join example_env (Some ''NOSUCHCODE'') (reqUser_of carol) example_app
     = (Err 404 ''Invalid invite code'', example_app)"
    using T[where inviteCode = "Some ''NOSUCHCODE''" and code = "''NOSUCHCODE''" and env = example_env
              and reqUser = "reqUser_of carol" and app = example_app,
            THEN conjunct2, THEN conjunct1] n
    by simp
  have f: "getProjectByInviteCode (app_db example_app) ''0123456789ABCDEF'' = Some sprint1"
    by code_simp
  have mb: "list_ex (\<lambda>m. m_projectId m = p_id sprint1 \<and> m_userId m = jwt_id (reqUser_of bob))
      (db_projectMembers (app_db example_app))" by code_simp
  have c2: "post_api_projects_join example_env (Some ''0123456789ABCDEF'') (reqUser_of bob) example_app
     = (Err 400 ''Already a member of this project'', example_app)"
    using T[where inviteCode = "Some ''0123456789ABCDEF''" and code = "''0123456789ABCDEF''"
              and env = example_env and reqUser = "reqUser_of bob" and app = example_app
              and found = sprint1,
            THEN conjunct2, THEN conjunct2, THEN conjunct1] ok f mb
    by simp
  have mc: "\<not> list_ex (\<lambda>m. m_projectId m = p_id sprint1 \<and> m_userId m = jwt_id (reqUser_of carol))
      (db_projectMembers (app_db example_app))"
    "list_ex (\<lambda>u. u_id u = jwt_id (reqUser_of carol)) (db_users (app_db example_app))"
    "\<not> list_ex (\<lambda>m. m_id m = gen_random_uuid example_env 0) (db_projectMembers (app_db example_app))"
    by code_simp+
  have c3: "db_projectMembers (app_db (snd (post_api_projects_join example_env (Some ''0123456789ABCDEF'')
                                     (reqUser_of carol) example_app)))
     = db_projectMembers (app_db example_app) @
       [\<lparr>m_id = gen_random_uuid example_env 0, m_projectId = p_id sprint1,
         m_userId = jwt_id (reqUser_of carol), m_role = ''member'', m_joinedAt = now example_env\<rparr>]"
    using T[where inviteCode = "Some ''0123456789ABCDEF''" and code = "''0123456789ABCDEF''"
              and env = example_env and reqUser = "reqUser_of carol" and app = example_app
              and found = sprint1,
            THEN conjunct2, THEN conjunct2, THEN conjunct2, THEN conjunct1] ok f mc
    by simp
  have g: "getUserProjectRole (app_db example_app) (p_id sprint1) (jwt_id ghost) = None"
    "\<not> db_ok ((app_db example_app)\<lparr>db_projectMembers := db_projectMembers (app_db example_app) @
          [\<lparr>m_id = gen_random_uuid example_env 0, m_projectId = p_id sprint1, m_userId = jwt_id ghost,
            m_role = ''member'', m_joinedAt = now example_env\<rparr>]\<rparr>)"
    by code_simp+
  have c4: "post_api_projects_join example_env (Some ''0123456789ABCDEF'') ghost example_app
     = (Err 500 ''Failed to join project'', example_app)"
    using T[where inviteCode = "Some ''0123456789ABCDEF''" and code = "''0123456789ABCDEF''"
              and env = example_env and reqUser = ghost and app = example_app
              and found = sprint1,
            THEN conjunct2, THEN conjunct2, THEN conjunct2, THEN conjunct2, THEN conjunct1] f g
    by simp
  let ?p = "sprint1\<lparr>p_id := gen_random_uuid example_env 0, p_name := ''Sprint 2'',
             p_description := Some ''What comes next'', p_inviteCode := ''ABABABABABABABAB'',
             p_createdAt := 100, p_updatedAt := 100\<rparr>"
  have cp: "(case createProject example_env example_db sprint2 (u_id alice) of
              (s', Inr created) \<Rightarrow> created = ?p | _ \<Rightarrow> False)"
    by code_simp
  then obtain s' where "createProject example_env example_db sprint2 (u_id alice) = (s', Inr ?p)"
    by (auto split: prod.splits sum.splits)
  note P = T[where env = example_env and s = example_db and projectData = sprint2
           and createdBy = "u_id alice" and s' = s' and created = ?p,
         THEN conjunct2, THEN conjunct2, THEN conjunct2, THEN conjunct2, THEN conjunct2,
         THEN conjunct2, rule_format, OF this]
  have c5: "length (p_inviteCode ?p) = 16"
    by (rule P[THEN conjunct2, THEN conjunct2, THEN conjunct2, THEN conjunct1])
  from c0 c1 c2 c3 c4 c5 show ?thesis by (intro conjI)
qed

section \<open>Registration and the current user\<close>

lemma jwt_verify_sign:
  "clock < issuedAt + 604800 \<Longrightarrow> jwt_verify (jwt_sign payload key issuedAt) key clock = Some payload"
  by (simp add: jwt_verify_def jwt_sign_def)

lemma getUserByEmail_None_iff:
  "getUserByEmail s email = None \<longleftrightarrow> \<not> list_ex (\<lambda>u. u_email u = email) (db_users s)"
  by (auto simp: getUserByEmail_def find_None_iff list_ex_iff)

lemma db_ok_add_user:
  assumes ok: "db_ok s"
    and fresh: "u_id u \<notin> u_id ` set (db_users s)"
    and email: "u_email u \<notin> u_email ` set (db_users s)"
    and row: "user_row_ok u"
  shows "db_ok (s\<lparr>db_users := db_users s @ [u]\<rparr>)"
  using assms
  by (auto simp: db_ok_def Let_def list_all_iff project_row_ok_def member_row_ok_def task_row_ok_def
           split: option.splits)

lemma createUser_Inr:
  assumes "createUser env s insertUser = (s', Inr u)"
  shows "u = \<lparr>u_id = gen_random_uuid env 0, u_firstName = iu_firstName insertUser,
              u_lastName = iu_lastName insertUser, u_email = iu_email insertUser,
              u_password = iu_password insertUser,
              u_profileImageUrl = iu_profileImageUrl insertUser,
              u_createdAt = now env, u_updatedAt = now env\<rparr>"
    and "s' = s\<lparr>db_users := db_users s @ [u]\<rparr>"
    and "db_ok s'"
  using assms by (auto simp: createUser_def Let_def commit_def split: if_splits)

lemma getUser_created:
  assumes "createUser env s insertUser = (s', Inr u)"
  shows "getUser s' (u_id u) = Some u"
proof -
  note C = createUser_Inr[OF assms]
  have us: "db_users s' = db_users s @ [u]" by (subst C(2)) simp
  from db_ok_D(1)[OF C(3)] have "u_id u \<notin> u_id ` set (db_users s)" by (simp add: us)
  then have "filter (\<lambda>x. u_id x = u_id u) (db_users s) = []"
    by (auto simp: filter_empty_conv image_iff)
  then show ?thesis by (simp add: getUser_def us find_append_fresh)
qed

lemma post_api_auth_register_Json:
  assumes "post_api_auth_register env parsed app = (Json c r, app')"
  shows "c = 201 \<and> app_clients app' = app_clients app \<and>
     (\<exists>userData u.
        parsed = Some userData \<and> getUserByEmail (app_db app) (iu_email userData) = None \<and>
        createUser env (app_db app) (userData\<lparr>iu_password := bcrypt_hash env (iu_password userData)\<rparr>)
          = (app_db app', Inr u) \<and>
        r = \<lparr>ar_token = jwt_sign \<lparr>jwt_id = u_id u, jwt_email = u_email u\<rparr> (JWT_SECRET env) (now env),
             ar_user = publicUser u\<rparr>)"
  using assms
  by (auto simp: post_api_auth_register_def Let_def split: option.splits prod.splits sum.splits)

text \<open>
  C5. A registration whose email is the email of a stored user is answered 400 ``User
  already exists'' and changes nothing. A registration that is answered with a token had a
  fresh email, and the token, presented to \<open>/api/auth/me\<close> under the same signing secret
  before the seven days are over (so also at once), is accepted: the answer is 200 with
  the very user the registration returned, whose id is the row's new id and whose email
  is the one registered. With a fresh email the registration is answered 201 whenever the
  database accepts the row: the tables satisfy the constraints, the new id is unused and
  the names, email and image URL fit their columns.
\<close>

theorem register_then_me:
  "(parsed = Some userData \<and>
    list_ex (\<lambda>u. u_email u = iu_email userData) (db_users (app_db app)) \<longrightarrow>
      post_api_auth_register env parsed app = (Err 400 ''User already exists'', app)) \<and>
   (post_api_auth_register env parsed app = (Json c r, app') \<and>
    JWT_SECRET env' = JWT_SECRET env \<and> now env' < now env + 604800 \<longrightarrow>
      authenticateToken env' (Some (ar_token r)) get_api_auth_me app' = (Json 200 (ar_user r), app') \<and>
      pub_id (ar_user r) = gen_random_uuid env 0 \<and>
      (\<exists>given. parsed = Some given \<and> pub_email (ar_user r) = iu_email given \<and>
         \<not> list_ex (\<lambda>u. u_email u = iu_email given) (db_users (app_db app)))) \<and>
   (db_ok (app_db app) \<and> parsed = Some userData \<and>
    \<not> list_ex (\<lambda>u. u_email u = iu_email userData) (db_users (app_db app)) \<and>
    \<not> list_ex (\<lambda>u. u_id u = gen_random_uuid env 0) (db_users (app_db app)) \<and>
    length (iu_firstName userData) \<le> 100 \<and> length (iu_lastName userData) \<le> 100 \<and>
    length (iu_email userData) \<le> 255 \<and>
    (case iu_profileImageUrl userData of None \<Rightarrow> True | Some url \<Rightarrow> length url \<le> 500) \<longrightarrow>
      (\<exists>token. fst (post_api_auth_register env parsed app)
         = Json 201 \<lparr>ar_token = token,
                     ar_user = \<lparr>pub_id = gen_random_uuid env 0,
                                 pub_firstName = iu_firstName userData,
                                 pub_lastName = iu_lastName userData,
                                 pub_email = iu_email userData,
                                 pub_profileImageUrl = iu_profileImageUrl userData\<rparr>\<rparr>))"
proof -
  have a: "post_api_auth_register env parsed app = (Err 400 ''User already exists'', app)"
    if h: "parsed = Some userData \<and>
      list_ex (\<lambda>u. u_email u = iu_email userData) (db_users (app_db app))"
  proof -
    from h have "getUserByEmail (app_db app) (iu_email userData) \<noteq> None"
      by (simp add: getUserByEmail_None_iff)
    with h show ?thesis by (auto simp: post_api_auth_register_def)
  qed
  have b: "authenticateToken env' (Some (ar_token r)) get_api_auth_me app' = (Json 200 (ar_user r), app') \<and>
      pub_id (ar_user r) = gen_random_uuid env 0 \<and>
      (\<exists>given. parsed = Some given \<and> pub_email (ar_user r) = iu_email given \<and>
         \<not> list_ex (\<lambda>u. u_email u = iu_email given) (db_users (app_db app)))"
    if h: "post_api_auth_register env parsed app = (Json c r, app') \<and>
      JWT_SECRET env' = JWT_SECRET env \<and> now env' < now env + 604800"
  proof -
    from h post_api_auth_register_Json[of env parsed app c r app'] obtain given u where
      p: "parsed = Some given" and
      fresh: "getUserByEmail (app_db app) (iu_email given) = None" and
      cu: "createUser env (app_db app) (given\<lparr>iu_password := bcrypt_hash env (iu_password given)\<rparr>)
             = (app_db app', Inr u)" and
      r: "r = \<lparr>ar_token = jwt_sign \<lparr>jwt_id = u_id u, jwt_email = u_email u\<rparr> (JWT_SECRET env) (now env),
               ar_user = publicUser u\<rparr>"
      by blast
    note C = createUser_Inr[OF cu]
    have v: "jwt_verify (ar_token r) (JWT_SECRET env') (now env')
               = Some \<lparr>jwt_id = u_id u, jwt_email = u_email u\<rparr>"
      using h by (simp add: r jwt_verify_sign)
    have au: "authenticateToken env' (Some (ar_token r)) get_api_auth_me app'
                = get_api_auth_me \<lparr>jwt_id = u_id u, jwt_email = u_email u\<rparr> app'"
      by (simp add: authenticateToken_def v)
    have pu: "ar_user r = publicUser u" by (simp add: r)
    have me: "authenticateToken env' (Some (ar_token r)) get_api_auth_me app' = (Json 200 (ar_user r), app')"
      unfolding au pu by (simp add: get_api_auth_me_def getUser_created[OF cu])
    have i: "pub_id (ar_user r) = gen_random_uuid env 0" by (simp add: r publicUser_def C(1))
    have e: "pub_email (ar_user r) = iu_email given" by (simp add: r publicUser_def C(1))
    from fresh have "\<not> list_ex (\<lambda>u. u_email u = iu_email given) (db_users (app_db app))"
      by (simp add: getUserByEmail_None_iff)
    with me i e p show ?thesis by blast
  qed
  have c: "\<exists>token. fst (post_api_auth_register env parsed app)
         = Json 201 \<lparr>ar_token = token,
                     ar_user = \<lparr>pub_id = gen_random_uuid env 0,
                                 pub_firstName = iu_firstName userData,
                                 pub_lastName = iu_lastName userData,
                                 pub_email = iu_email userData,
                                 pub_profileImageUrl = iu_profileImageUrl userData\<rparr>\<rparr>"
    if h: "db_ok (app_db app) \<and> parsed = Some userData \<and>
      \<not> list_ex (\<lambda>u. u_email u = iu_email userData) (db_users (app_db app)) \<and>
      \<not> list_ex (\<lambda>u. u_id u = gen_random_uuid env 0) (db_users (app_db app)) \<and>
      length (iu_firstName userData) \<le> 100 \<and> length (iu_lastName userData) \<le> 100 \<and>
      length (iu_email userData) \<le> 255 \<and>
      (case iu_profileImageUrl userData of None \<Rightarrow> True | Some url \<Rightarrow> length url \<le> 500)"
  proof -
    let ?u = "\<lparr>u_id = gen_random_uuid env 0, u_firstName = iu_firstName userData,
              u_lastName = iu_lastName userData, u_email = iu_email userData,
              u_password = bcrypt_hash env (iu_password userData),
              u_profileImageUrl = iu_profileImageUrl userData,
              u_createdAt = now env, u_updatedAt = now env\<rparr>"
    from h have ok: "db_ok (app_db app)" by simp
    from h have f1: "u_id ?u \<notin> u_id ` set (db_users (app_db app))"
      by (auto simp: list_ex_iff image_iff)
    from h have f2: "u_email ?u \<notin> u_email ` set (db_users (app_db app))"
      by (auto simp: list_ex_iff image_iff)
    from h have f3: "user_row_ok ?u" by (simp add: user_row_ok_def)
    have ok': "db_ok ((app_db app)\<lparr>db_users := db_users (app_db app) @ [?u]\<rparr>)"
      by (rule db_ok_add_user[OF ok f1 f2 f3])
    from h have n: "getUserByEmail (app_db app) (iu_email userData) = None"
      by (simp add: getUserByEmail_None_iff)
    from h have p: "parsed = Some userData" by simp
    show ?thesis
      by (simp add: p post_api_auth_register_def n createUser_def Let_def commit_def ok' publicUser_def)
  qed
  show ?thesis
    by (rule conjI[OF impI[OF a] conjI[OF impI[OF b] impI[OF c]]])
qed


theorem register_then_me_witness:
  "post_api_auth_register example_env (Some (erin_signup\<lparr>iu_email := ''alice@x.com''\<rparr>)) example_app
     = (Err 400 ''User already exists'', example_app) \<and>
   (case fst (post_api_auth_register example_env (Some erin_signup) example_app) of
      Json c r \<Rightarrow>
        c = 201 \<and>
        authenticateToken example_env (Some (ar_token r)) get_api_auth_me
          (snd (post_api_auth_register example_env (Some erin_signup) example_app))
        = (Json 200 (ar_user r), snd (post_api_auth_register example_env (Some erin_signup) example_app)) \<and>
        pub_id (ar_user r) = gen_random_uuid example_env 0 \<and>
        pub_email (ar_user r) = ''erin@x.com''
    | Err c m \<Rightarrow> False)"
proof -
  note T = register_then_me
  let ?dup = "erin_signup\<lparr>iu_email := ''alice@x.com''\<rparr>"
  let ?x = "post_api_auth_register example_env (Some erin_signup) example_app"
  have d: "list_ex (\<lambda>u. u_email u = iu_email ?dup) (db_users (app_db example_app))" by code_simp
  have c1: "post_api_auth_register example_env (Some ?dup) example_app
     = (Err 400 ''User already exists'', example_app)"
    using T[where parsed = "Some ?dup" and userData = ?dup and app = example_app and env = example_env,
            THEN conjunct1] d by simp
  have h: "db_ok (app_db example_app)"
    "\<not> list_ex (\<lambda>u. u_email u = iu_email erin_signup) (db_users (app_db example_app))"
    "\<not> list_ex (\<lambda>u. u_id u = gen_random_uuid example_env 0) (db_users (app_db example_app))"
    "length (iu_firstName erin_signup) \<le> 100" "length (iu_lastName erin_signup) \<le> 100"
    "length (iu_email erin_signup) \<le> 255"
    "(case iu_profileImageUrl erin_signup of None \<Rightarrow> True | Some url \<Rightarrow> length url \<le> 500)"
    by code_simp+
  from T[where parsed = "Some erin_signup" and userData = erin_signup and app = example_app
           and env = example_env, THEN conjunct2, THEN conjunct2] h
  obtain token where
    f: "fst ?x = Json 201 \<lparr>ar_token = token,
                     ar_user = \<lparr>pub_id = gen_random_uuid example_env 0,
                                 pub_firstName = iu_firstName erin_signup,
                                 pub_lastName = iu_lastName erin_signup,
                                 pub_email = iu_email erin_signup,
                                 pub_profileImageUrl = iu_profileImageUrl erin_signup\<rparr>\<rparr>"
    by blast
  let ?r = "\<lparr>ar_token = token,
             ar_user = \<lparr>pub_id = gen_random_uuid example_env 0,
                         pub_firstName = iu_firstName erin_signup,
                         pub_lastName = iu_lastName erin_signup,
                         pub_email = iu_email erin_signup,
                         pub_profileImageUrl = iu_profileImageUrl erin_signup\<rparr>\<rparr>"
  from f have x: "?x = (Json 201 ?r, snd ?x)" by (simp add: prod_eq_iff)
  have t: "now example_env < now example_env + 604800" by simp
  note B = T[where parsed = "Some erin_signup" and app = example_app and env = example_env
               and env' = example_env and c = 201 and r = ?r and app' = "snd ?x",
             THEN conjunct2, THEN conjunct1, rule_format, OF conjI[OF x conjI[OF refl t]]]
  have em: "iu_email erin_signup = ''erin@x.com''" by (simp add: erin_signup_def)
  have c2: "(case fst ?x of
      Json c r \<Rightarrow>
        c = 201 \<and>
        authenticateToken example_env (Some (ar_token r)) get_api_auth_me (snd ?x)
        = (Json 200 (ar_user r), snd ?x) \<and>
        pub_id (ar_user r) = gen_random_uuid example_env 0 \<and>
        pub_email (ar_user r) = ''erin@x.com''
    | Err c m \<Rightarrow> False)"
    unfolding f using B[THEN conjunct1] by (simp add: em)
  from c1 c2 show ?thesis by (intro conjI)
qed

section \<open>Hydrated responses\<close>

lemma find_key_commute: "find (\<lambda>x. k = f x) xs = find (\<lambda>x. f x = k) xs"
  by (rule arg_cong[where f = "\<lambda>P. find P xs"]) (auto simp: fun_eq_iff)

lemma getUser_stored:
  "ident \<in> u_id ` set (db_users s) \<Longrightarrow> getUser s ident \<noteq> None"
  by (auto simp: getUser_def find_None_iff)

lemma projectWithMembers_embeds:
  assumes ok: "db_ok s" and p: "p \<in> set (db_projects s)"
  shows "project_embeds_stored_users s (projectWithMembers s p)"
proof -
  have m: "pw_members (projectWithMembers s p) =
           map (\<lambda>m. ProjectMember.extend m (MemberWithUser.fields (getUser s (m_userId m))))
             (filter (\<lambda>m. m_projectId m = p_id p) (db_projectMembers s))"
    by (simp add: projectWithMembers_members[OF db_ok_D(1)[OF ok]] getUser_def find_key_commute)
  have c: "pw_creator (projectWithMembers s p) = getUser s (p_createdBy p)"
    by (simp add: projectWithMembers_def Let_def Project.defs ProjectWithMembers.defs getUser_def)
  have cs: "getUser s (p_createdBy p) \<noteq> None"
    using db_ok_D(9)[OF ok p] by (rule getUser_stored)
  have ms: "getUser s (m_userId x) \<noteq> None" if "x \<in> set (db_projectMembers s)" for x
    using db_ok_D(7)[OF ok that] by (simp add: getUser_stored)
  have ids: "map m_id (pw_members (projectWithMembers s p))
      = map m_id (filter (\<lambda>m. m_projectId m = p_id (projectWithMembers s p)) (db_projectMembers s))"
    unfolding m by (simp add: o_def extend_member_base projectWithMembers_base)
  have rest: "list_all (\<lambda>mu. mw_user mu = getUser s (m_userId mu) \<and> mw_user mu \<noteq> None)
          (pw_members (projectWithMembers s p)) \<and>
        pw_creator (projectWithMembers s p) = getUser s (p_createdBy (projectWithMembers s p)) \<and>
        pw_creator (projectWithMembers s p) \<noteq> None"
    unfolding m c
    using cs ms
    by (simp add: list_all_iff ProjectMember.defs MemberWithUser.defs projectWithMembers_base)
  show ?thesis
    unfolding project_embeds_stored_users_def by (rule conjI[OF ids rest])
qed

lemma getProjectWithMembers_embeds:
  assumes "db_ok s" and "getProjectWithMembers s ident = Some pw"
  shows "project_embeds_stored_users s pw"
proof -
  from assms(2) obtain p where "find (\<lambda>p. p_id p = ident) (db_projects s) = Some p"
    and pw: "pw = projectWithMembers s p"
    by (auto simp: getProjectWithMembers_def split: option.splits)
  then have "p \<in> set (db_projects s)" by (auto simp: find_Some_iff)
  with assms(1) pw show ?thesis by (simp add: projectWithMembers_embeds)
qed

lemma getUserProjects_embeds:
  assumes "db_ok s"
  shows "list_all (project_embeds_stored_users s) (getUserProjects s userId)"
  using assms
  by (auto simp: getUserProjects_def Let_def list_all_iff projectWithMembers_embeds)

lemma find_assignee:
  "find (\<lambda>u. t_assigneeId t = Some (u_id u)) (db_users s)
     = (case t_assigneeId t of None \<Rightarrow> None | Some a \<Rightarrow> getUser s a)"
  by (cases "t_assigneeId t") (simp_all add: getUser_def find_key_commute find_None_iff)

lemma taskRows_db_ok:
  assumes ok: "db_ok s"
  shows "taskRows s =
     map (\<lambda>t. ((t, case t_assigneeId t of None \<Rightarrow> None | Some a \<Rightarrow> getUser s a),
                find (\<lambda>p. t_projectId t = p_id p) (db_projects s)))
       (db_tasks s)"
proof -
  have d1: "distinct (map (\<lambda>u. Some (u_id u)) (db_users s))"
    using db_ok_D(1)[OF ok] by (simp add: distinct_map inj_on_def)
  have inner: "leftJoin (db_tasks s) (db_users s) (\<lambda>t u. t_assigneeId t = Some (u_id u))
     = map (\<lambda>t. (t, find (\<lambda>u. t_assigneeId t = Some (u_id u)) (db_users s))) (db_tasks s)"
    using d1 by (rule leftJoin_distinct)
  have on2: "(\<lambda>(t, u) p. t_projectId t = p_id p)
     = (\<lambda>a b. (case a of (t, u) \<Rightarrow> t_projectId t) = p_id b)"
    by (simp add: fun_eq_iff split: prod.splits)
  have outer: "leftJoin rows (db_projects s) (\<lambda>(t, u) p. t_projectId t = p_id p)
     = map (\<lambda>a. (a, find (\<lambda>b. (case a of (t, u) \<Rightarrow> t_projectId t) = p_id b) (db_projects s))) rows"
    for rows :: "(Task \<times> User option) list"
    unfolding on2 using db_ok_D(3)[OF ok] by (rule leftJoin_distinct)
  show ?thesis
    unfolding taskRows_def inner outer by (simp add: find_assignee o_def)
qed

lemma taskWithDetails_embeds:
  assumes ok: "db_ok s" and t: "t \<in> set (db_tasks s)"
  shows "task_embeds_stored_users s
           (taskWithDetails s ((t, case t_assigneeId t of None \<Rightarrow> None | Some a \<Rightarrow> getUser s a), p))"
proof -
  from db_ok_D(8)[OF ok t] have c: "getUser s (t_createdBy t) \<noteq> None"
    and a: "\<And>a. t_assigneeId t = Some a \<Longrightarrow> getUser s a \<noteq> None"
    by (simp_all add: getUser_stored)
  show ?thesis
    using c a
    by (auto simp: task_embeds_stored_users_def taskWithDetails_def Task.defs TaskWithDetails.defs
          getUser_def split: option.splits)
qed

lemma getTask_embeds:
  assumes ok: "db_ok s" and g: "getTask s ident = Some td"
  shows "task_embeds_stored_users s td"
proof -
  from g obtain t where f: "find (\<lambda>t. t_id t = ident) (db_tasks s) = Some t" and
    td: "td = taskWithDetails s
           ((t, case t_assigneeId t of None \<Rightarrow> None | Some a \<Rightarrow> getUser s a),
            find (\<lambda>p. t_projectId t = p_id p) (db_projects s))"
    unfolding getTask_find find_assignee by auto
  from f have "t \<in> set (db_tasks s)" by (auto simp: find_Some_iff)
  with ok td show ?thesis by (simp add: taskWithDetails_embeds)
qed

lemma taskRows_embeds:
  assumes ok: "db_ok s" and r: "row \<in> set (taskRows s)"
  shows "task_embeds_stored_users s (taskWithDetails s row)"
  using r unfolding taskRows_db_ok[OF ok] by (auto simp: taskWithDetails_embeds[OF ok])

lemma getProjectTasks_embeds:
  assumes "db_ok s"
  shows "list_all (task_embeds_stored_users s) (getProjectTasks s projectId)"
  by (auto simp: getProjectTasks_def list_all_iff taskRows_embeds[OF assms])

lemma getUserTasks_embeds:
  assumes "db_ok s"
  shows "list_all (task_embeds_stored_users s) (getUserTasks s userId)"
  by (auto simp: getUserTasks_def list_all_iff taskRows_embeds[OF assms])

lemma get_api_project_Json:
  "fst (get_api_project projectId reqUser app) = Json c pw \<Longrightarrow>
   c = 200 \<and> getProjectWithMembers (app_db app) projectId = Some pw"
  by (auto simp: get_api_project_def checkProjectPermission_def split: option.splits if_splits)

lemma post_api_projects_join_Json:
  assumes "fst (post_api_projects_join env inviteCode reqUser app) = Json c full"
  shows "\<exists>code found.
           c = 200 \<and> inviteCode = Some code \<and>
           getProjectByInviteCode (app_db app) code = Some found \<and>
           db_ok (app_db (snd (post_api_projects_join env inviteCode reqUser app))) \<and>
           app_db (snd (post_api_projects_join env inviteCode reqUser app))
             = (app_db app)\<lparr>db_projectMembers := db_projectMembers (app_db app) @
                 [\<lparr>m_id = gen_random_uuid env 0, m_projectId = p_id found,
                   m_userId = jwt_id reqUser, m_role = ''member'', m_joinedAt = now env\<rparr>]\<rparr> \<and>
           full = getProjectWithMembers
                    (app_db (snd (post_api_projects_join env inviteCode reqUser app))) (p_id found)"
  using assms
  by (auto simp: post_api_projects_join_def addProjectMember_def Let_def falsy_def commit_def
           split: option.splits prod.splits sum.splits if_splits)

lemma get_api_project_tasks_Json:
  "fst (get_api_project_tasks projectId reqUser app) = Json c tds \<Longrightarrow>
   c = 200 \<and> tds = getProjectTasks (app_db app) projectId"
  by (auto simp: get_api_project_tasks_def checkProjectPermission_def split: option.splits if_splits)


lemma getUserProjects_eq:
  "getUserProjects s userId =
     map (projectWithMembers s)
       (rev (sort_key p_updatedAt (filter (member_of s userId) (db_projects s))))"
proof -
  let ?ids = "map m_projectId (filter (\<lambda>m. m_userId m = userId) (db_projectMembers s))"
  have eq: "(\<lambda>p. list_ex (\<lambda>i. p_id p = i) ?ids) = member_of s userId"
    by (fastforce simp: fun_eq_iff list_ex_iff member_of_def image_iff)
  show ?thesis
  proof (cases "?ids = []")
    case True
    then have "filter (member_of s userId) (db_projects s) = []"
      unfolding eq[symmetric] by (simp add: filter_empty_conv)
    with True show ?thesis by (simp add: getUserProjects_def)
  next
    case False
    then show ?thesis by (simp add: getUserProjects_def Let_def eq)
  qed
qed

lemma getUserProjects_complete:
  "length (getUserProjects s userId) = length (filter (member_of s userId) (db_projects s)) \<and>
   set (map p_id (getUserProjects s userId))
     = set (map p_id (filter (member_of s userId) (db_projects s)))"
  by (simp add: getUserProjects_eq o_def projectWithMembers_base)

lemma taskRows_filter:
  assumes ok: "db_ok s"
  shows "filter (\<lambda>((t, u), p). Q t) (taskRows s) =
     map (\<lambda>t. ((t, case t_assigneeId t of None \<Rightarrow> None | Some a \<Rightarrow> getUser s a),
                find (\<lambda>p. t_projectId t = p_id p) (db_projects s)))
       (filter Q (db_tasks s))"
  unfolding taskRows_db_ok[OF ok] by (simp add: filter_map o_def)

lemma getProjectTasks_complete:
  assumes ok: "db_ok s"
  shows "length (getProjectTasks s projectId)
           = length (filter (\<lambda>t. t_projectId t = projectId) (db_tasks s)) \<and>
         set (map t_id (getProjectTasks s projectId))
           = set (map t_id (filter (\<lambda>t. t_projectId t = projectId) (db_tasks s)))"
  unfolding getProjectTasks_def taskRows_filter[OF ok]
  by (simp add: o_def taskWithDetails_base image_image)

lemma getUserTasks_complete:
  assumes ok: "db_ok s"
  shows "length (getUserTasks s userId)
           = length (filter (\<lambda>t. t_assigneeId t = Some userId) (db_tasks s)) \<and>
         set (map t_id (getUserTasks s userId))
           = set (map t_id (filter (\<lambda>t. t_assigneeId t = Some userId) (db_tasks s)))"
  unfolding getUserTasks_def taskRows_filter[OF ok]
  by (simp add: o_def taskWithDetails_base image_image)

lemma join_response:
  assumes ok: "db_ok (app_db app)"
    and j: "fst (post_api_projects_join env inviteCode reqUser app) = Json c full"
  shows "\<exists>pw code found.
           full = Some pw \<and> inviteCode = Some code \<and>
           getProjectByInviteCode (app_db app) code = Some found \<and> p_id pw = p_id found \<and>
           project_embeds_stored_users
             (app_db (snd (post_api_projects_join env inviteCode reqUser app))) pw \<and>
           list_ex (\<lambda>mu. m_userId mu = jwt_id reqUser \<and> m_role mu = ''member'' \<and>
                          mw_user mu = getUser (app_db app) (jwt_id reqUser))
             (pw_members pw)"
proof -
  let ?s' = "app_db (snd (post_api_projects_join env inviteCode reqUser app))"
  from post_api_projects_join_Json[OF j] obtain code found where
    ic: "inviteCode = Some code" and
    f: "getProjectByInviteCode (app_db app) code = Some found" and
    ok': "db_ok ?s'" and
    s': "?s' = (app_db app)\<lparr>db_projectMembers := db_projectMembers (app_db app) @
                 [\<lparr>m_id = gen_random_uuid env 0, m_projectId = p_id found,
                   m_userId = jwt_id reqUser, m_role = ''member'', m_joinedAt = now env\<rparr>]\<rparr>" and
    full: "full = getProjectWithMembers ?s' (p_id found)"
    by blast
  let ?new = "\<lparr>m_id = gen_random_uuid env 0, m_projectId = p_id found,
                m_userId = jwt_id reqUser, m_role = ''member'', m_joinedAt = now env\<rparr>"
  have ps: "db_projects ?s' = db_projects (app_db app)" and us: "db_users ?s' = db_users (app_db app)"
    and ms: "db_projectMembers ?s' = db_projectMembers (app_db app) @ [?new]"
    by (subst s', simp)+
  from f have "found \<in> set (db_projects (app_db app))"
    by (auto simp: getProjectByInviteCode_def find_Some_iff)
  then have "find (\<lambda>p. p_id p = p_id found) (db_projects ?s') \<noteq> None"
    by (auto simp: ps find_None_iff)
  then obtain p where p: "find (\<lambda>p. p_id p = p_id found) (db_projects ?s') = Some p" by auto
  then have pin: "p \<in> set (db_projects ?s')" and pid: "p_id p = p_id found"
    by (auto simp: find_Some_iff)
  let ?pw = "projectWithMembers ?s' p"
  have 1: "full = Some ?pw" by (simp add: full getProjectWithMembers_def p)
  have 2: "p_id ?pw = p_id found" by (simp add: projectWithMembers_base pid)
  have 3: "project_embeds_stored_users ?s' ?pw" by (rule projectWithMembers_embeds[OF ok' pin])
  have gu: "getUser ?s' (jwt_id reqUser) = getUser (app_db app) (jwt_id reqUser)"
    by (simp add: getUser_def us)
  have mem: "pw_members ?pw =
           map (\<lambda>m. ProjectMember.extend m
                      (MemberWithUser.fields (find (\<lambda>u. m_userId m = u_id u) (db_users ?s'))))
             (filter (\<lambda>m. m_projectId m = p_id p) (db_projectMembers ?s'))"
    by (rule projectWithMembers_members[OF db_ok_D(1)[OF ok']])
  have inl: "?new \<in> set (filter (\<lambda>m. m_projectId m = p_id p) (db_projectMembers ?s'))"
    by (simp add: ms pid)
  let ?mu = "ProjectMember.extend ?new
               (MemberWithUser.fields (find (\<lambda>u. m_userId ?new = u_id u) (db_users ?s')))"
  have "?mu \<in> set (pw_members ?pw)"
    unfolding mem set_map by (intro image_eqI[where x = "?new"]) (simp, rule inl)
  moreover have "m_userId ?mu = jwt_id reqUser \<and> m_role ?mu = ''member'' \<and>
      mw_user ?mu = getUser (app_db app) (jwt_id reqUser)"
    by (simp add: ProjectMember.defs MemberWithUser.defs getUser_def us find_key_commute)
  ultimately have 4: "list_ex (\<lambda>mu. m_userId mu = jwt_id reqUser \<and> m_role mu = ''member'' \<and>
                          mw_user mu = getUser (app_db app) (jwt_id reqUser)) (pw_members ?pw)"
    unfolding list_ex_iff by blast
  from 1 ic f 2 3 4 show ?thesis by blast
qed


lemma getProjectWithMembers_id:
  "getProjectWithMembers s ident = Some pw \<Longrightarrow> p_id pw = ident"
  by (auto simp: getProjectWithMembers_def projectWithMembers_base find_Some_iff
           split: option.splits)

lemma getTask_id: "getTask s ident = Some td \<Longrightarrow> t_id td = ident"
  unfolding getTask_find by (auto simp: taskWithDetails_base find_Some_iff)

text \<open>
  C4. When the stored tables satisfy the constraints, every hydrated resource that
  reaches the caller embeds complete stored \<open>User\<close> rows, the password hash with them.
  \<open>GET /api/projects/:projectId\<close> answers with the project asked for, one member entry
  for each of its membership rows, each carrying the stored row of that member, and the
  stored row of the creator. \<open>GET /api/projects\<close> answers with exactly the projects the
  caller is a member of, each hydrated in that way. A successful join answers with the
  project the invite code resolves to, hydrated in that way over the new state, and the
  caller is among its members with role \<open>member\<close> and the caller's stored row.
  \<open>getTask\<close> answers with the task asked for, carrying the stored rows of its creator and
  of its assignee when it has one; \<open>GET /api/projects/:projectId/tasks\<close> answers with
  exactly the tasks of the project and \<open>GET /api/my-tasks\<close> with exactly the tasks
  assigned to the caller, each hydrated in that way.
\<close>

theorem responses_embed_stored_user_rows:
  "db_ok (app_db app) \<longrightarrow>
     (\<forall>c pw. fst (get_api_project projectId reqUser app) = Json c pw \<longrightarrow>
        p_id pw = projectId \<and> project_embeds_stored_users (app_db app) pw) \<and>
     (\<forall>c pws. fst (get_api_projects reqUser app) = Json c pws \<longrightarrow>
        list_all (project_embeds_stored_users (app_db app)) pws \<and>
        length pws = length (filter (member_of (app_db app) (jwt_id reqUser))
                               (db_projects (app_db app))) \<and>
        set (map p_id pws) = set (map p_id (filter (member_of (app_db app) (jwt_id reqUser))
                                              (db_projects (app_db app))))) \<and>
     (\<forall>c full. fst (post_api_projects_join env inviteCode reqUser app) = Json c full \<longrightarrow>
        (\<exists>pw code found.
           full = Some pw \<and> inviteCode = Some code \<and>
           getProjectByInviteCode (app_db app) code = Some found \<and> p_id pw = p_id found \<and>
           project_embeds_stored_users
             (app_db (snd (post_api_projects_join env inviteCode reqUser app))) pw \<and>
           list_ex (\<lambda>mu. m_userId mu = jwt_id reqUser \<and> m_role mu = ''member'' \<and>
                          mw_user mu = getUser (app_db app) (jwt_id reqUser))
             (pw_members pw))) \<and>
     (\<forall>td. getTask (app_db app) taskId = Some td \<longrightarrow>
        t_id td = taskId \<and> task_embeds_stored_users (app_db app) td) \<and>
     (\<forall>c tds. fst (get_api_project_tasks projectId reqUser app) = Json c tds \<longrightarrow>
        list_all (task_embeds_stored_users (app_db app)) tds \<and>
        length tds = length (filter (\<lambda>t. t_projectId t = projectId) (db_tasks (app_db app))) \<and>
        set (map t_id tds)
          = set (map t_id (filter (\<lambda>t. t_projectId t = projectId) (db_tasks (app_db app))))) \<and>
     (\<forall>c tds. fst (get_api_my_tasks reqUser app) = Json c tds \<longrightarrow>
        list_all (task_embeds_stored_users (app_db app)) tds \<and>
        length tds = length (filter (\<lambda>t. t_assigneeId t = Some (jwt_id reqUser))
                               (db_tasks (app_db app))) \<and>
        set (map t_id tds)
          = set (map t_id (filter (\<lambda>t. t_assigneeId t = Some (jwt_id reqUser))
                             (db_tasks (app_db app)))))"
  (is "_ \<longrightarrow> ?P1 \<and> ?P2 \<and> ?P3 \<and> ?P4 \<and> ?P5 \<and> ?P6")
proof
  assume ok: "db_ok (app_db app)"
  have 1: ?P1
  proof (intro allI impI)
    fix c pw
    assume "fst (get_api_project projectId reqUser app) = Json c pw"
    from get_api_project_Json[OF this]
    have g: "getProjectWithMembers (app_db app) projectId = Some pw" by (rule conjunct2)
    show "p_id pw = projectId \<and> project_embeds_stored_users (app_db app) pw"
      by (rule conjI[OF getProjectWithMembers_id[OF g] getProjectWithMembers_embeds[OF ok g]])
  qed
  have 2: ?P2
  proof (intro allI impI)
    fix c pws
    assume "fst (get_api_projects reqUser app) = Json c pws"
    then have pws: "pws = getUserProjects (app_db app) (jwt_id reqUser)"
      by (simp add: get_api_projects_def)
    show "list_all (project_embeds_stored_users (app_db app)) pws \<and>
        length pws = length (filter (member_of (app_db app) (jwt_id reqUser))
                               (db_projects (app_db app))) \<and>
        set (map p_id pws) = set (map p_id (filter (member_of (app_db app) (jwt_id reqUser))
                                              (db_projects (app_db app))))"
      unfolding pws by (rule conjI[OF getUserProjects_embeds[OF ok] getUserProjects_complete])
  qed
  have 3: ?P3
  proof (intro allI impI)
    fix c full
    assume "fst (post_api_projects_join env inviteCode reqUser app) = Json c full"
    then show "\<exists>pw code found.
           full = Some pw \<and> inviteCode = Some code \<and>
           getProjectByInviteCode (app_db app) code = Some found \<and> p_id pw = p_id found \<and>
           project_embeds_stored_users
             (app_db (snd (post_api_projects_join env inviteCode reqUser app))) pw \<and>
           list_ex (\<lambda>mu. m_userId mu = jwt_id reqUser \<and> m_role mu = ''member'' \<and>
                          mw_user mu = getUser (app_db app) (jwt_id reqUser))
             (pw_members pw)"
      by (rule join_response[OF ok])
  qed
  have 4: ?P4
  proof (intro allI impI)
    fix td
    assume g: "getTask (app_db app) taskId = Some td"
    show "t_id td = taskId \<and> task_embeds_stored_users (app_db app) td"
      by (rule conjI[OF getTask_id[OF g] getTask_embeds[OF ok g]])
  qed
  have 5: ?P5
  proof (intro allI impI)
    fix c tds
    assume "fst (get_api_project_tasks projectId reqUser app) = Json c tds"
    from get_api_project_tasks_Json[OF this]
    have tds: "tds = getProjectTasks (app_db app) projectId" by (rule conjunct2)
    show "list_all (task_embeds_stored_users (app_db app)) tds \<and>
        length tds = length (filter (\<lambda>t. t_projectId t = projectId) (db_tasks (app_db app))) \<and>
        set (map t_id tds)
          = set (map t_id (filter (\<lambda>t. t_projectId t = projectId) (db_tasks (app_db app))))"
      unfolding tds by (rule conjI[OF getProjectTasks_embeds[OF ok] getProjectTasks_complete[OF ok]])
  qed
  have 6: ?P6
  proof (intro allI impI)
    fix c tds
    assume "fst (get_api_my_tasks reqUser app) = Json c tds"
    then have tds: "tds = getUserTasks (app_db app) (jwt_id reqUser)"
      by (simp add: get_api_my_tasks_def)
    show "list_all (task_embeds_stored_users (app_db app)) tds \<and>
        length tds = length (filter (\<lambda>t. t_assigneeId t = Some (jwt_id reqUser))
                               (db_tasks (app_db app))) \<and>
        set (map t_id tds)
          = set (map t_id (filter (\<lambda>t. t_assigneeId t = Some (jwt_id reqUser))
                             (db_tasks (app_db app))))"
      unfolding tds by (rule conjI[OF getUserTasks_embeds[OF ok] getUserTasks_complete[OF ok]])
  qed
  show "?P1 \<and> ?P2 \<and> ?P3 \<and> ?P4 \<and> ?P5 \<and> ?P6"
    by (rule conjI[OF 1 conjI[OF 2 conjI[OF 3 conjI[OF 4 conjI[OF 5 6]]]]])
qed

theorem responses_embed_stored_user_rows_witness:
  "(case fst (get_api_project (p_id sprint1) (reqUser_of bob) example_app) of
      Json c pw \<Rightarrow>
        c = 200 \<and> p_id pw = p_id sprint1 \<and>
        project_embeds_stored_users (app_db example_app) pw \<and>
        map mw_user (pw_members pw) = [Some alice, Some bob, Some dave] \<and>
        map (\<lambda>mu. map_option u_password (mw_user mu)) (pw_members pw)
          = [Some ''$2b$12$alice'', Some ''$2b$12$bob'', Some ''$2b$12$dave''] \<and>
        map_option u_password (pw_creator pw) = Some ''$2b$12$alice''
    | Err c m \<Rightarrow> False) \<and>
   (case fst (get_api_projects (reqUser_of bob) example_app) of
      Json c pws \<Rightarrow>
        c = 200 \<and>
        list_all (project_embeds_stored_users (app_db example_app)) pws \<and>
        length pws = length (filter (member_of (app_db example_app) (jwt_id (reqUser_of bob)))
                               (db_projects (app_db example_app))) \<and>
        map p_id pws = [p_id sprint1] \<and>
        map (\<lambda>pw. map mw_user (pw_members pw)) pws = [[Some alice, Some bob, Some dave]] \<and>
        map (\<lambda>pw. map_option u_password (pw_creator pw)) pws = [Some ''$2b$12$alice'']
    | Err c m \<Rightarrow> False) \<and>
   (case fst (post_api_projects_join example_env (Some ''0123456789ABCDEF'') (reqUser_of carol)
                example_app) of
      Json c full \<Rightarrow>
        (case full of
           Some pw \<Rightarrow>
             c = 200 \<and> p_id pw = p_id sprint1 \<and>
             project_embeds_stored_users
               (app_db (snd (post_api_projects_join example_env (Some ''0123456789ABCDEF'')
                               (reqUser_of carol) example_app))) pw \<and>
             list_ex (\<lambda>mu. m_userId mu = jwt_id (reqUser_of carol) \<and> m_role mu = ''member'' \<and>
                            mw_user mu = getUser (app_db example_app) (jwt_id (reqUser_of carol)))
               (pw_members pw) \<and>
             map mw_user (pw_members pw) = [Some alice, Some bob, Some dave, Some carol] \<and>
             map (\<lambda>mu. map_option u_password (mw_user mu)) (pw_members pw)
               = [Some ''$2b$12$alice'', Some ''$2b$12$bob'', Some ''$2b$12$dave'',
                  Some ''$2b$12$carol'']
         | None \<Rightarrow> False)
    | Err c m \<Rightarrow> False) \<and>
   (case getTask (app_db example_app) (t_id write_spec) of
      Some td \<Rightarrow>
        t_id td = t_id write_spec \<and>
        task_embeds_stored_users (app_db example_app) td \<and>
        map_option u_password (td_assignee td) = Some ''$2b$12$bob'' \<and>
        map_option u_password (td_creator td) = Some ''$2b$12$alice''
    | None \<Rightarrow> False) \<and>
   (case fst (get_api_project_tasks (p_id sprint1) (reqUser_of dave) example_app) of
      Json c tds \<Rightarrow>
        c = 200 \<and>
        list_all (task_embeds_stored_users (app_db example_app)) tds \<and>
        length tds = length (filter (\<lambda>t. t_projectId t = p_id sprint1)
                               (db_tasks (app_db example_app))) \<and>
        map t_id tds = [t_id write_spec] \<and>
        map td_assignee tds = [Some bob] \<and> map td_creator tds = [Some alice]
    | Err c m \<Rightarrow> False) \<and>
   (case fst (get_api_my_tasks (reqUser_of bob) example_app) of
      Json c tds \<Rightarrow>
        c = 200 \<and>
        list_all (task_embeds_stored_users (app_db example_app)) tds \<and>
        length tds = length (filter (\<lambda>t. t_assigneeId t = Some (jwt_id (reqUser_of bob)))
                               (db_tasks (app_db example_app))) \<and>
        map t_id tds = [t_id write_spec] \<and>
        map (\<lambda>td. map_option u_password (td_assignee td)) tds = [Some ''$2b$12$bob''] \<and>
        map (\<lambda>td. map_option u_password (td_creator td)) tds = [Some ''$2b$12$alice'']
    | Err c m \<Rightarrow> False)"
proof -
  let ?x1 = "fst (get_api_project (p_id sprint1) (reqUser_of bob) example_app)"
  let ?x2 = "fst (get_api_projects (reqUser_of bob) example_app)"
  let ?j = "post_api_projects_join example_env (Some ''0123456789ABCDEF'') (reqUser_of carol)
              example_app"
  let ?x4 = "getTask (app_db example_app) (t_id write_spec)"
  let ?x5 = "fst (get_api_project_tasks (p_id sprint1) (reqUser_of dave) example_app)"
  let ?x6 = "fst (get_api_my_tasks (reqUser_of bob) example_app)"
  have ok: "db_ok (app_db example_app)" by code_simp
  note Tb = responses_embed_stored_user_rows
              [where app = example_app and projectId = "p_id sprint1" and reqUser = "reqUser_of bob"
                 and env = example_env and inviteCode = None and taskId = "t_id write_spec",
               rule_format, OF ok]
  note Tc = responses_embed_stored_user_rows
              [where app = example_app and projectId = "p_id sprint1"
                 and reqUser = "reqUser_of carol" and env = example_env
                 and inviteCode = "Some ''0123456789ABCDEF''" and taskId = "t_id write_spec",
               rule_format, OF ok]
  note Td = responses_embed_stored_user_rows
              [where app = example_app and projectId = "p_id sprint1" and reqUser = "reqUser_of dave"
                 and env = example_env and inviteCode = None and taskId = "t_id write_spec",
               rule_format, OF ok]

  have e1: "(case ?x1 of
      Json c pw \<Rightarrow>
        c = 200 \<and>
        map mw_user (pw_members pw) = [Some alice, Some bob, Some dave] \<and>
        map (\<lambda>mu. map_option u_password (mw_user mu)) (pw_members pw)
          = [Some ''$2b$12$alice'', Some ''$2b$12$bob'', Some ''$2b$12$dave''] \<and>
        map_option u_password (pw_creator pw) = Some ''$2b$12$alice''
    | Err c m \<Rightarrow> False)"
    by code_simp
  then obtain c1 pw1 where x1: "?x1 = Json c1 pw1" by (cases ?x1) simp_all
  note p1 = Tb[THEN conjunct1, rule_format, OF x1]
  have c1: "(case ?x1 of
      Json c pw \<Rightarrow>
        c = 200 \<and> p_id pw = p_id sprint1 \<and>
        project_embeds_stored_users (app_db example_app) pw \<and>
        map mw_user (pw_members pw) = [Some alice, Some bob, Some dave] \<and>
        map (\<lambda>mu. map_option u_password (mw_user mu)) (pw_members pw)
          = [Some ''$2b$12$alice'', Some ''$2b$12$bob'', Some ''$2b$12$dave''] \<and>
        map_option u_password (pw_creator pw) = Some ''$2b$12$alice''
    | Err c m \<Rightarrow> False)"
    using e1 p1 unfolding x1 by simp

  have e2: "(case ?x2 of
      Json c pws \<Rightarrow>
        c = 200 \<and>
        map p_id pws = [p_id sprint1] \<and>
        map (\<lambda>pw. map mw_user (pw_members pw)) pws = [[Some alice, Some bob, Some dave]] \<and>
        map (\<lambda>pw. map_option u_password (pw_creator pw)) pws = [Some ''$2b$12$alice'']
    | Err c m \<Rightarrow> False)"
    by code_simp
  then obtain c2 pws where x2: "?x2 = Json c2 pws" by (cases ?x2) simp_all
  note p2 = Tb[THEN conjunct2, THEN conjunct1, rule_format, OF x2]
  have c2: "(case ?x2 of
      Json c pws \<Rightarrow>
        c = 200 \<and>
        list_all (project_embeds_stored_users (app_db example_app)) pws \<and>
        length pws = length (filter (member_of (app_db example_app) (jwt_id (reqUser_of bob)))
                               (db_projects (app_db example_app))) \<and>
        map p_id pws = [p_id sprint1] \<and>
        map (\<lambda>pw. map mw_user (pw_members pw)) pws = [[Some alice, Some bob, Some dave]] \<and>
        map (\<lambda>pw. map_option u_password (pw_creator pw)) pws = [Some ''$2b$12$alice'']
    | Err c m \<Rightarrow> False)"
    using e2 p2 unfolding x2 by simp

  have e3: "(case fst ?j of
      Json c full \<Rightarrow>
        (case full of
           Some pw \<Rightarrow>
             c = 200 \<and> p_id pw = p_id sprint1 \<and>
             map mw_user (pw_members pw) = [Some alice, Some bob, Some dave, Some carol] \<and>
             map (\<lambda>mu. map_option u_password (mw_user mu)) (pw_members pw)
               = [Some ''$2b$12$alice'', Some ''$2b$12$bob'', Some ''$2b$12$dave'',
                  Some ''$2b$12$carol'']
         | None \<Rightarrow> False)
    | Err c m \<Rightarrow> False)"
    by code_simp
  then obtain c3 full where x3: "fst ?j = Json c3 full" by (cases "fst ?j") simp_all
  from Tc[THEN conjunct2, THEN conjunct2, THEN conjunct1, rule_format, OF x3]
  obtain pw3 where f3: "full = Some pw3" and
    p3: "project_embeds_stored_users (app_db (snd ?j)) pw3" and
    l3: "list_ex (\<lambda>mu. m_userId mu = jwt_id (reqUser_of carol) \<and> m_role mu = ''member'' \<and>
                       mw_user mu = getUser (app_db example_app) (jwt_id (reqUser_of carol)))
           (pw_members pw3)"
    by blast
  have c3: "(case fst ?j of
      Json c full \<Rightarrow>
        (case full of
           Some pw \<Rightarrow>
             c = 200 \<and> p_id pw = p_id sprint1 \<and>
             project_embeds_stored_users (app_db (snd ?j)) pw \<and>
             list_ex (\<lambda>mu. m_userId mu = jwt_id (reqUser_of carol) \<and> m_role mu = ''member'' \<and>
                            mw_user mu = getUser (app_db example_app) (jwt_id (reqUser_of carol)))
               (pw_members pw) \<and>
             map mw_user (pw_members pw) = [Some alice, Some bob, Some dave, Some carol] \<and>
             map (\<lambda>mu. map_option u_password (mw_user mu)) (pw_members pw)
               = [Some ''$2b$12$alice'', Some ''$2b$12$bob'', Some ''$2b$12$dave'',
                  Some ''$2b$12$carol'']
         | None \<Rightarrow> False)
    | Err c m \<Rightarrow> False)"
    using e3 p3 l3 unfolding x3 f3 by simp

  have e4: "(case ?x4 of
      Some td \<Rightarrow>
        map_option u_password (td_assignee td) = Some ''$2b$12$bob'' \<and>
        map_option u_password (td_creator td) = Some ''$2b$12$alice''
    | None \<Rightarrow> False)"
    by code_simp
  then obtain td4 where x4: "?x4 = Some td4" by (cases ?x4) simp_all
  note p4 = Tb[THEN conjunct2, THEN conjunct2, THEN conjunct2, THEN conjunct1, rule_format, OF x4]
  have c4: "(case ?x4 of
      Some td \<Rightarrow>
        t_id td = t_id write_spec \<and>
        task_embeds_stored_users (app_db example_app) td \<and>
        map_option u_password (td_assignee td) = Some ''$2b$12$bob'' \<and>
        map_option u_password (td_creator td) = Some ''$2b$12$alice''
    | None \<Rightarrow> False)"
    using e4 p4 unfolding x4 by simp

  have e5: "(case ?x5 of
      Json c tds \<Rightarrow>
        c = 200 \<and>
        map t_id tds = [t_id write_spec] \<and>
        map td_assignee tds = [Some bob] \<and> map td_creator tds = [Some alice]
    | Err c m \<Rightarrow> False)"
    by code_simp
  then obtain c5 tds5 where x5: "?x5 = Json c5 tds5" by (cases ?x5) simp_all
  note p5 = Td[THEN conjunct2, THEN conjunct2, THEN conjunct2, THEN conjunct2, THEN conjunct1,
               rule_format, OF x5]
  have c5: "(case ?x5 of
      Json c tds \<Rightarrow>
        c = 200 \<and>
        list_all (task_embeds_stored_users (app_db example_app)) tds \<and>
        length tds = length (filter (\<lambda>t. t_projectId t = p_id sprint1)
                               (db_tasks (app_db example_app))) \<and>
        map t_id tds = [t_id write_spec] \<and>
        map td_assignee tds = [Some bob] \<and> map td_creator tds = [Some alice]
    | Err c m \<Rightarrow> False)"
    using e5 p5 unfolding x5 by simp

  have e6: "(case ?x6 of
      Json c tds \<Rightarrow>
        c = 200 \<and>
        map t_id tds = [t_id write_spec] \<and>
        map (\<lambda>td. map_option u_password (td_assignee td)) tds = [Some ''$2b$12$bob''] \<and>
        map (\<lambda>td. map_option u_password (td_creator td)) tds = [Some ''$2b$12$alice'']
    | Err c m \<Rightarrow> False)"
    by code_simp
  then obtain c6 tds6 where x6: "?x6 = Json c6 tds6" by (cases ?x6) simp_all
  note p6 = Tb[THEN conjunct2, THEN conjunct2, THEN conjunct2, THEN conjunct2, THEN conjunct2,
               rule_format, OF x6]
  have c6: "(case ?x6 of
      Json c tds \<Rightarrow>
        c = 200 \<and>
        list_all (task_embeds_stored_users (app_db example_app)) tds \<and>
        length tds = length (filter (\<lambda>t. t_assigneeId t = Some (jwt_id (reqUser_of bob)))
                               (db_tasks (app_db example_app))) \<and>
        map t_id tds = [t_id write_spec] \<and>
        map (\<lambda>td. map_option u_password (td_assignee td)) tds = [Some ''$2b$12$bob''] \<and>
        map (\<lambda>td. map_option u_password (td_creator td)) tds = [Some ''$2b$12$alice'']
    | Err c m \<Rightarrow> False)"
    using e6 p6 unfolding x6 by simp
  show ?thesis
    by (rule conjI[OF c1 conjI[OF c2 conjI[OF c3 conjI[OF c4 conjI[OF c5 c6]]]]])
qed

section \<open>The constraints as an invariant\<close>

lemma db_ok_empty:
  "db_ok \<lparr>db_users = [], db_projects = [], db_projectMembers = [], db_tasks = []\<rparr>"
  by (simp add: db_ok_def)

lemma commit_db_ok: "db_ok s \<Longrightarrow> db_ok (fst (commit s s' r))"
  by (simp add: commit_def)

lemma image_filter_keep:
  "k \<in> f ` set xs \<Longrightarrow> k \<noteq> ident \<Longrightarrow> k \<in> f ` set (filter (\<lambda>x. f x \<noteq> ident) xs)"
  by auto

lemma deleteProject_db_ok:
  assumes ok: "db_ok s"
  shows "db_ok (fst (deleteProject s ident))"
proof (cases "filter (\<lambda>p. p_id p = ident) (db_projects s) = []")
  case True
  with ok show ?thesis by (simp add: deleteProject_def)
next
  case False
  let ?ps = "filter (\<lambda>p. p_id p \<noteq> ident) (db_projects s)"
  let ?ms = "filter (\<lambda>m. m_projectId m \<noteq> ident) (db_projectMembers s)"
  let ?ts = "filter (\<lambda>t. t_projectId t \<noteq> ident) (db_tasks s)"
  from False have d: "fst (deleteProject s ident)
      = s\<lparr>db_projects := ?ps, db_projectMembers := ?ms, db_tasks := ?ts\<rparr>"
    by (simp add: deleteProject_def)
  have m: "member_row_ok (map u_id (db_users s)) (map p_id ?ps) x" if "x \<in> set ?ms" for x
  proof -
    from that have x: "x \<in> set (db_projectMembers s)" and n: "m_projectId x \<noteq> ident" by simp_all
    from db_ok_D(7)[OF ok x] image_filter_keep[of "m_projectId x" p_id "db_projects s" ident] n
    show ?thesis by (simp add: member_row_ok_def)
  qed
  have t: "task_row_ok (map u_id (db_users s)) (map p_id ?ps) x" if "x \<in> set ?ts" for x
  proof -
    from that have x: "x \<in> set (db_tasks s)" and n: "t_projectId x \<noteq> ident" by simp_all
    from ok x have r: "task_row_ok (map u_id (db_users s)) (map p_id (db_projects s)) x"
      by (simp add: db_ok_def Let_def list_all_iff)
    from db_ok_D(8)[OF ok x] image_filter_keep[of "t_projectId x" p_id "db_projects s" ident] n r
    show ?thesis by (simp add: task_row_ok_def)
  qed
  have p: "project_row_ok (map u_id (db_users s)) x" if "x \<in> set ?ps" for x
    using ok that by (simp add: db_ok_def Let_def list_all_iff)
  from ok have u: "distinct (map u_id (db_users s))" "distinct (map u_email (db_users s))"
      "list_all user_row_ok (db_users s)"
    by (simp_all add: db_ok_def Let_def)
  show ?thesis
    unfolding d
    using u m t p db_ok_D(3,4,5,6)[OF ok]
    by (simp add: db_ok_def Let_def list_all_iff distinct_map_filter)
qed

lemma createProject_db_ok_result:
  "db_ok s \<Longrightarrow> createProject env s projectData createdBy = (s', r) \<Longrightarrow> db_ok s'"
  by (auto simp: createProject_def Let_def commit_def split: prod.splits sum.splits if_splits)

lemma deleteTask_db_ok:
  assumes "db_ok s"
  shows "db_ok (fst (deleteTask s ident))"
  using assms
  by (auto simp: deleteTask_def db_ok_def Let_def list_all_iff distinct_map_filter)

lemma removeProjectMember_db_ok:
  assumes "db_ok s"
  shows "db_ok (fst (removeProjectMember s projectId userId))"
  using assms
  by (auto simp: removeProjectMember_def db_ok_def Let_def list_all_iff distinct_map_filter)

text \<open>
  The constraints are an invariant of the server: they hold of the empty database, and
  every route leaves them in force.
\<close>

lemma routes_preserve_constraints:
  assumes "db_ok (app_db app)"
  shows "db_ok (app_db (snd (post_api_auth_register env parsedUser app)))"
    and "db_ok (app_db (snd (authenticateToken env token get_api_auth_me app)))"
    and "db_ok (app_db (snd (get_api_projects reqUser app)))"
    and "db_ok (app_db (snd (post_api_projects env parsedProject reqUser app)))"
    and "db_ok (app_db (snd (get_api_project projectId reqUser app)))"
    and "db_ok (app_db (snd (put_api_project env projectId pbody reqUser app)))"
    and "db_ok (app_db (snd (delete_api_project projectId reqUser app)))"
    and "db_ok (app_db (snd (post_api_projects_join env inviteCode reqUser app)))"
    and "db_ok (app_db (snd (get_api_my_tasks reqUser app)))"
    and "db_ok (app_db (snd (get_api_project_tasks projectId reqUser app)))"
    and "db_ok (app_db (snd (post_api_project_tasks env projectId parsedTask reqUser app)))"
    and "db_ok (app_db (snd (put_api_task env taskId tbody reqUser app)))"
    and "db_ok (app_db (snd (patch_api_project_task env projectId taskId tbody reqUser app)))"
    and "db_ok (app_db (snd (delete_api_task taskId reqUser app)))"
proof -
  note [simp] = Let_def checkProjectPermission_def
  show "db_ok (app_db (snd (post_api_auth_register env parsedUser app)))"
    using assms commit_db_ok[OF assms]
    by (auto simp: post_api_auth_register_def createUser_def commit_def
             split: option.splits prod.splits sum.splits if_splits)
  show "db_ok (app_db (snd (authenticateToken env token get_api_auth_me app)))"
    using assms by (auto simp: authenticateToken_def get_api_auth_me_def split: option.splits)
  show "db_ok (app_db (snd (get_api_projects reqUser app)))"
    using assms by (simp add: get_api_projects_def)
  show "db_ok (app_db (snd (post_api_projects env parsedProject reqUser app)))"
    using assms
    by (auto simp: post_api_projects_def split: option.splits prod.splits sum.splits
             dest: createProject_db_ok_result)
  show "db_ok (app_db (snd (get_api_project projectId reqUser app)))"
    using assms by (auto simp: get_api_project_def split: option.splits)
  show "db_ok (app_db (snd (put_api_project env projectId pbody reqUser app)))"
    using assms
    by (auto simp: put_api_project_def updateProject_def commit_def
             split: option.splits prod.splits sum.splits if_splits)
  show "db_ok (app_db (snd (delete_api_project projectId reqUser app)))"
    using assms deleteProject_db_ok[OF assms, of projectId]
    by (auto simp: delete_api_project_def split: option.splits prod.splits bool.splits)
  show "db_ok (app_db (snd (post_api_projects_join env inviteCode reqUser app)))"
    using assms
    by (auto simp: post_api_projects_join_def addProjectMember_def commit_def
             split: option.splits prod.splits sum.splits if_splits)
  show "db_ok (app_db (snd (get_api_my_tasks reqUser app)))"
    using assms by (simp add: get_api_my_tasks_def)
  show "db_ok (app_db (snd (get_api_project_tasks projectId reqUser app)))"
    using assms by (auto simp: get_api_project_tasks_def split: option.splits)
  show "db_ok (app_db (snd (post_api_project_tasks env projectId parsedTask reqUser app)))"
    using assms
    by (auto simp: post_api_project_tasks_def createTask_def commit_def
             split: option.splits prod.splits sum.splits if_splits)
  show "db_ok (app_db (snd (put_api_task env taskId tbody reqUser app)))"
    using assms
    by (auto simp: put_api_task_def updateTask_def commit_def
             split: option.splits prod.splits sum.splits if_splits)
  show "db_ok (app_db (snd (patch_api_project_task env projectId taskId tbody reqUser app)))"
    using assms
    by (auto simp: patch_api_project_task_def updateTask_def commit_def
             split: option.splits prod.splits sum.splits if_splits)
  show "db_ok (app_db (snd (delete_api_task taskId reqUser app)))"
    using assms deleteTask_db_ok[OF assms, of taskId]
    by (auto simp: delete_api_task_def split: option.splits prod.splits bool.splits)
qed

end
